theory Spec2Isabelle
  imports Main "HOL-Library.Word" "HOL-Library.Sublist"
begin

unbundle bit_operations_syntax

section \<open>Python values and exceptions\<close>

text \<open>
  The client moves JSON-like values between its caller and two remote services. A Python
  \<open>str\<close> is a \<open>string\<close> (a list of 8-bit characters, read as the code points 0..255),
  a \<open>bytes\<close> object a list of 8-bit words, an \<open>int\<close> an unbounded \<open>int\<close>, and a
  \<open>dict\<close> with string keys an association list. Floats are not part of the model.
\<close>

type_synonym byte = "8 word"

datatype pyval =
    PNone
  | PBool bool
  | PInt int
  | PStr string
  | PBytes "byte list"
  | PList "pyval list"
  | PDict "(string \<times> pyval) list"

text \<open>
  Exceptions are values. \<open>Exception msg\<close> is \<open>raise Exception(msg)\<close> of the source; the
  others are raised by the interpreter (\<open>KeyError\<close> carries the missing key,
  \<open>AttributeError\<close> and \<open>NameError\<close> the missing name, \<open>ValueError\<close> a description) or,
  for \<open>Remote\<close>, by one of the two collaborating client libraries.
\<close>

datatype exn =
    Exception string
  | KeyError string
  | TypeError
  | ValueError string
  | IndexError
  | AttributeError string
  | NameError string
  | UnicodeEncodeError
  | Remote string

text \<open>Truth value testing, as \<open>if data:\<close> and \<open>and\<close> do it.\<close>

fun truthy :: "pyval \<Rightarrow> bool" where
  "truthy PNone = False"
| "truthy (PBool b) = b"
| "truthy (PInt i) = (i \<noteq> 0)"
| "truthy (PStr s) = (s \<noteq> [])"
| "truthy (PBytes bs) = (bs \<noteq> [])"
| "truthy (PList xs) = (xs \<noteq> [])"
| "truthy (PDict kvs) = (kvs \<noteq> [])"

text \<open>
  Subscription \<open>v['key']\<close> with a string key, the only form the source uses: a \<open>dict\<close>
  looks the key up and raises \<open>KeyError\<close> when it is missing; every other value of the
  model raises \<open>TypeError\<close> (\<open>None\<close>, \<open>bool\<close> and \<open>int\<close> are not subscriptable;
  \<open>str\<close>, \<open>bytes\<close> and \<open>list\<close> take integer indices only).
\<close>

fun py_getitem :: "pyval \<Rightarrow> string \<Rightarrow> exn + pyval" where
  "py_getitem (PDict kvs) k = (case map_of kvs k of None \<Rightarrow> Inl (KeyError k) | Some v \<Rightarrow> Inr v)"
| "py_getitem _ k = Inl TypeError"

section \<open>Effects\<close>

text \<open>
  Everything the client does to the outside world is a call into a collaborator or a line
  on the console. A computation takes the log of what has happened so far and returns
  its outcome (\<open>Inl\<close> an exception, \<open>Inr\<close> a value) with the extended log. An \<open>await\<close>
  of a collaborator's coroutine is sequential composition: the caller resumes with the
  coroutine's outcome. A coroutine that never completes has no outcome here: every
  statement below is about calls that return or raise.
\<close>

datatype side = Works | Market

datatype callable = Callable string

datatype event =
    DuctCall side pyval pyval
  | SignInWorks pyval pyval pyval "(string \<times> pyval) list"
  | SignOutWorks
  | CreateNanotasks "(string \<times> pyval) list"
  | CreateNanotaskGroup "(string \<times> pyval) list"
  | On string callable
  | Send string "(string \<times> pyval) list"
  | Print "pyval list"
  | PrintExc exn

type_synonym 'a io = "event list \<Rightarrow> (exn + 'a) \<times> event list"

definition ret :: "'a \<Rightarrow> 'a io" where
  "ret x = (\<lambda>t. (Inr x, t))"

definition raise :: "exn \<Rightarrow> 'a io" where
  "raise e = (\<lambda>t. (Inl e, t))"

definition expr :: "exn + 'a \<Rightarrow> 'a io" where
  "expr r = (\<lambda>t. (r, t))"

definition effect :: "event \<Rightarrow> exn + 'a \<Rightarrow> 'a io" where
  "effect ev r = (\<lambda>t. (r, t @ [ev]))"

definition bnd :: "'a io \<Rightarrow> ('a \<Rightarrow> 'b io) \<Rightarrow> 'b io" where
  "bnd m f = (\<lambda>t. case m t of (Inl e, t') \<Rightarrow> (Inl e, t') | (Inr x, t') \<Rightarrow> f x t')"

definition try_except :: "'a io \<Rightarrow> (exn \<Rightarrow> 'a io) \<Rightarrow> 'a io" where
  "try_except m h = (\<lambda>t. case m t of (Inl e, t') \<Rightarrow> h e t' | (Inr x, t') \<Rightarrow> (Inr x, t'))"

definition print :: "pyval list \<Rightarrow> unit io" where
  "print vs = effect (Print vs) (Inr ())"

text \<open>
  The duplex-channel transport of a collaborator (\<open>ducts_client.Duct\<close>): its event table
  \<open>EVENT\<close>, and what its \<open>call\<close> coroutine returns or raises for an event id and a payload.
\<close>

record duct =
  EVENT :: pyval
  call :: "pyval \<Rightarrow> pyval \<Rightarrow> exn + pyval"

definition duct_call :: "side \<Rightarrow> duct \<Rightarrow> pyval \<Rightarrow> pyval \<Rightarrow> pyval io" where
  "duct_call s d ev payload = effect (DuctCall s ev payload) (call d ev payload)"

section \<open>Text: \<open>str()\<close>, \<open>repr()\<close>, \<open>int()\<close> and \<open>str.format\<close>\<close>

abbreviation dq :: char where "dq \<equiv> CHR 0x22"
abbreviation sq :: char where "sq \<equiv> CHR 0x27"
abbreviation bsl :: char where "bsl \<equiv> CHR 0x5C"

fun dec_nat :: "nat \<Rightarrow> string" where
  "dec_nat n = (if n < 10 then [char_of (48 + n)] else dec_nat (n div 10) @ [char_of (48 + n mod 10)])"

declare dec_nat.simps [simp del]

definition dec_int :: "int \<Rightarrow> string" where
  "dec_int i = (if i < 0 then CHR ''-'' # dec_nat (nat (- i)) else dec_nat (nat i))"

definition hex_digit :: "nat \<Rightarrow> char" where
  "hex_digit n = char_of (if n < 10 then 48 + n else 87 + n)"

definition hex_escape :: "nat \<Rightarrow> string" where
  "hex_escape c = [bsl, CHR ''x'', hex_digit (c div 16), hex_digit (c mod 16)]"

text \<open>
  \<open>repr\<close> of a \<open>str\<close> or \<open>bytes\<close>: double quotes when the text holds a single quote and no
  double quote, single quotes otherwise; the quote and the backslash are escaped, tab,
  newline and carriage return are written \<open>\t\<close>, \<open>\n\<close>, \<open>\r\<close>, and what is not printable as
  \<open>\xhh\<close>. In a \<open>bytes\<close> every byte from 127 on is escaped; in a \<open>str\<close> the code points
  127 to 160 and 173 are.
\<close>

definition repr_quote :: "nat list \<Rightarrow> nat" where
  "repr_quote cs = (if 39 \<in> set cs \<and> 34 \<notin> set cs then 34 else 39)"

definition repr_escape :: "bool \<Rightarrow> nat \<Rightarrow> nat \<Rightarrow> string" where
  "repr_escape is_str q c =
     (if c = q \<or> c = 92 then [bsl, char_of c]
      else if c = 9 then [bsl, CHR ''t'']
      else if c = 10 then [bsl, CHR ''n'']
      else if c = 13 then [bsl, CHR ''r'']
      else if c < 32 \<or> c = 127 then hex_escape c
      else if c < 127 then [char_of c]
      else if is_str \<and> \<not> (c \<le> 160 \<or> c = 173) then [char_of c]
      else hex_escape c)"

definition repr_text :: "bool \<Rightarrow> nat list \<Rightarrow> string" where
  "repr_text is_str cs =
     (let q = repr_quote cs
      in char_of q # concat (map (repr_escape is_str q) cs) @ [char_of q])"

fun join :: "string \<Rightarrow> string list \<Rightarrow> string" where
  "join sep [] = []"
| "join sep [x] = x"
| "join sep (x # y # ys) = x @ sep @ join sep (y # ys)"

fun py_repr :: "pyval \<Rightarrow> string" where
  "py_repr PNone = ''None''"
| "py_repr (PBool b) = (if b then ''True'' else ''False'')"
| "py_repr (PInt i) = dec_int i"
| "py_repr (PStr s) = repr_text True (map of_char s)"
| "py_repr (PBytes bs) = CHR ''b'' # repr_text False (map unat bs)"
| "py_repr (PList xs) = ''['' @ join '', '' (map py_repr xs) @ '']''"
| "py_repr (PDict kvs) =
     ''{'' @ join '', '' (map (\<lambda>kv. repr_text True (map of_char (fst kv)) @ '': '' @ py_repr (snd kv)) kvs) @ ''}''"

text \<open>\<open>str(v)\<close>, which is also what an empty replacement field of a format string writes.\<close>

definition py_str :: "pyval \<Rightarrow> string" where
  "py_str v = (case v of PStr s \<Rightarrow> s | _ \<Rightarrow> py_repr v)"

text \<open>
  \<open>int(x)\<close>. A text is stripped of white space, may start with one sign, and is then
  decimal digits, single underscores allowed between two digits. The white space is
  the code points 9 to 13 and 32 and, in a \<open>str\<close>, also 133 and 160. The
  \<open>ValueError\<close> carries the fixed part of the interpreter's message, without the
  offending text, and the interpreter's limit on the number of digits is not modelled.
\<close>

definition is_space :: "bool \<Rightarrow> nat \<Rightarrow> bool" where
  "is_space is_str c =
     ((9 \<le> c \<and> c \<le> 13) \<or> c = 32 \<or> (is_str \<and> (c = 133 \<or> c = 160)))"

definition strip :: "bool \<Rightarrow> nat list \<Rightarrow> nat list" where
  "strip is_str cs = rev (dropWhile (is_space is_str) (rev (dropWhile (is_space is_str) cs)))"

fun parse_digits :: "bool \<Rightarrow> nat \<Rightarrow> nat list \<Rightarrow> nat option" where
  "parse_digits prev acc [] = (if prev then Some acc else None)"
| "parse_digits prev acc (c # cs) =
     (if 48 \<le> c \<and> c \<le> 57 then parse_digits True (acc * 10 + (c - 48)) cs
      else if c = 95 \<and> prev then parse_digits False acc cs
      else None)"

definition int_of_text :: "bool \<Rightarrow> nat list \<Rightarrow> exn + int" where
  "int_of_text is_str cs =
     (let bad = Inl (ValueError ''invalid literal for int() with base 10'')
      in case strip is_str cs of
           [] \<Rightarrow> bad
         | c # ds \<Rightarrow>
             (if c = 45 then (case parse_digits False 0 ds of None \<Rightarrow> bad | Some n \<Rightarrow> Inr (- int n))
              else if c = 43 then (case parse_digits False 0 ds of None \<Rightarrow> bad | Some n \<Rightarrow> Inr (int n))
              else (case parse_digits False 0 (c # ds) of None \<Rightarrow> bad | Some n \<Rightarrow> Inr (int n))))"

fun py_int :: "pyval \<Rightarrow> exn + int" where
  "py_int (PInt i) = Inr i"
| "py_int (PBool b) = Inr (if b then 1 else 0)"
| "py_int (PStr s) = int_of_text True (map of_char s)"
| "py_int (PBytes bs) = int_of_text False (map unat bs)"
| "py_int PNone = Inl TypeError"
| "py_int (PList xs) = Inl TypeError"
| "py_int (PDict kvs) = Inl TypeError"

text \<open>
  \<open>template.format(*args)\<close> for templates whose replacement fields are all the empty
  field \<open>{}\<close>: \<open>{{\<close> and \<open>}}\<close> write one brace, \<open>{}\<close> writes \<open>str\<close> of the next argument,
  and a closing brace that is neither doubled nor the end of a field is an error.
  Fields with a name, a conversion or a format specification do not occur in the source.
\<close>

definition single_close :: exn where
  "single_close = ValueError (''Single '' @ [sq] @ ''}'' @ [sq] @ '' encountered in format string'')"

definition single_open :: exn where
  "single_open = ValueError (''Single '' @ [sq] @ ''{'' @ [sq] @ '' encountered in format string'')"

fun py_format :: "string \<Rightarrow> pyval list \<Rightarrow> exn + string" where
  "py_format [] args = Inr []"
| "py_format (c # cs) args =
     (if c = CHR ''{'' then
        (case cs of
           [] \<Rightarrow> Inl single_open
         | d # ds \<Rightarrow>
             if d = CHR ''{'' then map_sum id (Cons c) (py_format ds args)
             else if d = CHR ''}'' then
               (case args of
                  [] \<Rightarrow> Inl IndexError
                | a # as \<Rightarrow> map_sum id (append (py_str a)) (py_format ds as))
             else Inl (ValueError ''replacement field outside the model''))
      else if c = CHR ''}'' then
        (case cs of
           [] \<Rightarrow> Inl single_close
         | d # ds \<Rightarrow> if d = CHR ''}'' then map_sum id (Cons c) (py_format ds args) else Inl single_close)
      else map_sum id (Cons c) (py_format cs args))"

section \<open>SHA-512\<close>

text \<open>
  \<open>hashlib.sha512(data).digest()\<close>, as FIPS 180-4 defines it: the message is padded
  with the byte 128, zero bytes up to 112 modulo 128 and its length in bits as 16
  big-endian bytes, and each block of 128 bytes goes through 80 rounds on eight 64-bit
  words.
\<close>

type_synonym u64 = "64 word"

definition sha512_K :: "u64 list" where
  "sha512_K =
    [
     0x428A2F98D728AE22, 0x7137449123EF65CD, 0xB5C0FBCFEC4D3B2F, 0xE9B5DBA58189DBBC,
     0x3956C25BF348B538, 0x59F111F1B605D019, 0x923F82A4AF194F9B, 0xAB1C5ED5DA6D8118,
     0xD807AA98A3030242, 0x12835B0145706FBE, 0x243185BE4EE4B28C, 0x550C7DC3D5FFB4E2,
     0x72BE5D74F27B896F, 0x80DEB1FE3B1696B1, 0x9BDC06A725C71235, 0xC19BF174CF692694,
     0xE49B69C19EF14AD2, 0xEFBE4786384F25E3, 0x0FC19DC68B8CD5B5, 0x240CA1CC77AC9C65,
     0x2DE92C6F592B0275, 0x4A7484AA6EA6E483, 0x5CB0A9DCBD41FBD4, 0x76F988DA831153B5,
     0x983E5152EE66DFAB, 0xA831C66D2DB43210, 0xB00327C898FB213F, 0xBF597FC7BEEF0EE4,
     0xC6E00BF33DA88FC2, 0xD5A79147930AA725, 0x06CA6351E003826F, 0x142929670A0E6E70,
     0x27B70A8546D22FFC, 0x2E1B21385C26C926, 0x4D2C6DFC5AC42AED, 0x53380D139D95B3DF,
     0x650A73548BAF63DE, 0x766A0ABB3C77B2A8, 0x81C2C92E47EDAEE6, 0x92722C851482353B,
     0xA2BFE8A14CF10364, 0xA81A664BBC423001, 0xC24B8B70D0F89791, 0xC76C51A30654BE30,
     0xD192E819D6EF5218, 0xD69906245565A910, 0xF40E35855771202A, 0x106AA07032BBD1B8,
     0x19A4C116B8D2D0C8, 0x1E376C085141AB53, 0x2748774CDF8EEB99, 0x34B0BCB5E19B48A8,
     0x391C0CB3C5C95A63, 0x4ED8AA4AE3418ACB, 0x5B9CCA4F7763E373, 0x682E6FF3D6B2B8A3,
     0x748F82EE5DEFB2FC, 0x78A5636F43172F60, 0x84C87814A1F0AB72, 0x8CC702081A6439EC,
     0x90BEFFFA23631E28, 0xA4506CEBDE82BDE9, 0xBEF9A3F7B2C67915, 0xC67178F2E372532B,
     0xCA273ECEEA26619C, 0xD186B8C721C0C207, 0xEADA7DD6CDE0EB1E, 0xF57D4F7FEE6ED178,
     0x06F067AA72176FBA, 0x0A637DC5A2C898A6, 0x113F9804BEF90DAE, 0x1B710B35131C471B,
     0x28DB77F523047D84, 0x32CAAB7B40C72493, 0x3C9EBE0A15C9BEBC, 0x431D67C49C100D4C,
     0x4CC5D4BECB3E42B6, 0x597F299CFC657E2A, 0x5FCB6FAB3AD6FAEC, 0x6C44198C4A475817]"

definition sha512_H0 :: "u64 list" where
  "sha512_H0 =
    [
     0x6A09E667F3BCC908, 0xBB67AE8584CAA73B, 0x3C6EF372FE94F82B, 0xA54FF53A5F1D36F1,
     0x510E527FADE682D1, 0x9B05688C2B3E6C1F, 0x1F83D9ABFB41BD6B, 0x5BE0CD19137E2179]"

definition bsig0 :: "u64 \<Rightarrow> u64" where
  "bsig0 x = word_rotr 28 x XOR word_rotr 34 x XOR word_rotr 39 x"

definition bsig1 :: "u64 \<Rightarrow> u64" where
  "bsig1 x = word_rotr 14 x XOR word_rotr 18 x XOR word_rotr 41 x"

definition ssig0 :: "u64 \<Rightarrow> u64" where
  "ssig0 x = word_rotr 1 x XOR word_rotr 8 x XOR drop_bit 7 x"

definition ssig1 :: "u64 \<Rightarrow> u64" where
  "ssig1 x = word_rotr 19 x XOR word_rotr 61 x XOR drop_bit 6 x"

definition ch :: "u64 \<Rightarrow> u64 \<Rightarrow> u64 \<Rightarrow> u64" where
  "ch x y z = (x AND y) XOR (NOT x AND z)"

definition maj :: "u64 \<Rightarrow> u64 \<Rightarrow> u64 \<Rightarrow> u64" where
  "maj x y z = (x AND y) XOR (x AND z) XOR (y AND z)"

definition be_word :: "byte list \<Rightarrow> u64" where
  "be_word bs = foldl (\<lambda>acc b. push_bit 8 acc OR ucast b) 0 bs"

definition be_bytes :: "nat \<Rightarrow> 'a::len word \<Rightarrow> byte list" where
  "be_bytes n w = map (\<lambda>i. ucast (drop_bit (8 * (n - 1 - i)) w)) [0..<n]"

function chunks :: "nat \<Rightarrow> 'a list \<Rightarrow> 'a list list" where
  "chunks n xs = (if n = 0 \<or> xs = [] then [] else take n xs # chunks n (drop n xs))"
  by pat_completeness auto
termination
  by (relation "measure (\<lambda>(n, xs). length xs)") auto

declare chunks.simps [simp del]

definition sha512_pad :: "byte list \<Rightarrow> byte list" where
  "sha512_pad m =
     m @ [128] @ replicate ((239 - length m mod 128) mod 128) 0 @ be_bytes 16 (of_nat (8 * length m) :: 128 word)"

fun schedule :: "nat \<Rightarrow> u64 list \<Rightarrow> u64 list" where
  "schedule 0 ws = ws"
| "schedule (Suc k) ws =
     (let n = length ws
      in schedule k (ws @ [ssig1 (ws ! (n - 2)) + ws ! (n - 7) + ssig0 (ws ! (n - 15)) + ws ! (n - 16)]))"

fun sha512_round :: "u64 list \<Rightarrow> u64 \<times> u64 \<Rightarrow> u64 list" where
  "sha512_round [a, b, c, d, e, f, g, h] (k, w) =
     (let t1 = h + bsig1 e + ch e f g + k + w;
          t2 = bsig0 a + maj a b c
      in [t1 + t2, a, b, c, d + t1, e, f, g])"
| "sha512_round s kw = s"

definition compress :: "u64 list \<Rightarrow> byte list \<Rightarrow> u64 list" where
  "compress hs block =
     (let ws = schedule 64 (map be_word (chunks 8 block))
      in map2 (+) hs (foldl sha512_round hs (zip sha512_K ws)))"

definition sha512 :: "byte list \<Rightarrow> byte list" where
  "sha512 m = concat (map (be_bytes 8) (foldl compress sha512_H0 (chunks 128 (sha512_pad m))))"

section \<open>The Marketplace Controller (\<open>market_controller.py\<close>)\<close>

text \<open>
  The controller holds the transport and, once \<open>sign_in\<close> has stored it, the access
  token. \<open>__init__\<close> assigns the transport only: until \<open>sign_in\<close> succeeds the object has
  no attribute \<open>access_token\<close>, which is \<open>None\<close> here.
\<close>

record TuttiMarketController =
  market_duct :: duct
  access_token :: "pyval option"

definition controller_init :: "duct \<Rightarrow> TuttiMarketController" where
  "controller_init d = \<lparr>market_duct = d, access_token = None\<rparr>"

definition get_access_token :: "TuttiMarketController \<Rightarrow> exn + pyval" where
  "get_access_token mc =
     (case access_token mc of None \<Rightarrow> Inl (AttributeError ''access_token'') | Some v \<Rightarrow> Inr v)"

text \<open>
  \<open>register_job\<close>: the call expression evaluates the event id, then the payload from
  left to right (which reads \<open>self.access_token\<close>), and only then calls the transport.
\<close>

definition register_job ::
  "TuttiMarketController \<Rightarrow> pyval \<Rightarrow> pyval \<Rightarrow> pyval \<Rightarrow> pyval \<Rightarrow> pyval \<Rightarrow> pyval io" where
  "register_job mc job_class_id job_parameter description num_job_assignments_max priority_score =
     bnd (expr (py_getitem (EVENT (market_duct mc)) ''REGISTER_JOB'')) (\<lambda>ev.
     bnd (expr (get_access_token mc)) (\<lambda>tok.
     duct_call Market (market_duct mc) ev
       (PDict [(''access_token'', tok),
               (''job_class_id'', job_class_id),
               (''job_parameter'', job_parameter),
               (''description'', description),
               (''num_job_assignments_max'', num_job_assignments_max),
               (''priority_score'', priority_score)])))"

text \<open>\<open>password.encode('ascii')\<close>: only a \<open>str\<close> has the method, and only ASCII encodes.\<close>

definition encode_ascii :: "pyval \<Rightarrow> exn + byte list" where
  "encode_ascii v =
     (case v of
        PStr s \<Rightarrow>
          if list_all (\<lambda>c. of_char c < (128::nat)) s then Inr (map of_char s)
          else Inl UnicodeEncodeError
      | _ \<Rightarrow> Inl (AttributeError ''encode''))"

definition sign_in_request :: "pyval \<Rightarrow> byte list \<Rightarrow> pyval \<Rightarrow> pyval" where
  "sign_in_request user_id password_bytes access_token_lifetime =
     PDict [(''user_id'', user_id),
            (''password_hash'', PBytes (sha512 password_bytes)),
            (''access_token_lifetime'', access_token_lifetime)]"

text \<open>\<open>sign_in\<close> of the controller; it returns the controller with the token stored.\<close>

definition controller_sign_in ::
  "TuttiMarketController \<Rightarrow> pyval \<Rightarrow> pyval \<Rightarrow> pyval \<Rightarrow> TuttiMarketController io" where
  "controller_sign_in mc user_id password access_token_lifetime =
     bnd (expr (py_getitem (EVENT (market_duct mc)) ''SIGN_IN'')) (\<lambda>ev.
     bnd (expr (encode_ascii password)) (\<lambda>bs.
     bnd (duct_call Market (market_duct mc) ev (sign_in_request user_id bs access_token_lifetime)) (\<lambda>data.
     bnd (expr (py_getitem data ''body'')) (\<lambda>body.
     bnd (expr (py_getitem body ''access_token'')) (\<lambda>tok.
     ret (mc\<lparr>access_token := Some tok\<rparr>))))))"

definition controller_sign_out :: "TuttiMarketController \<Rightarrow> unit io" where
  "controller_sign_out mc =
     bnd (expr (py_getitem (EVENT (market_duct mc)) ''SIGN_OUT'')) (\<lambda>ev.
     bnd (expr (get_access_token mc)) (\<lambda>tok.
     bnd (duct_call Market (market_duct mc) ev (PDict [(''access_token'', tok)])) (\<lambda>data.
     ret ())))"

section \<open>The Facade Client (\<open>main.py\<close>)\<close>

text \<open>
  The task-management client (\<open>tutti_client.TuttiClient\<close>) is a collaborator: its
  transport, the account information it holds, and what each of the coroutines and
  methods the facade uses returns or raises for its arguments. Keyword arguments are an
  association list in the order the call writes them.
\<close>

type_synonym kwargs = "(string \<times> pyval) list"

record TuttiClient =
  tutti_duct :: duct
  account_info :: pyval
  resource_sign_in :: "pyval \<Rightarrow> pyval \<Rightarrow> pyval \<Rightarrow> kwargs \<Rightarrow> exn + pyval"
  resource_sign_out :: "exn + pyval"
  create_nanotasks :: "kwargs \<Rightarrow> exn + pyval"
  create_nanotask_group :: "kwargs \<Rightarrow> exn + pyval"
  resource_on :: "string \<Rightarrow> callable \<Rightarrow> exn + pyval"
  resource_send :: "string \<Rightarrow> kwargs \<Rightarrow> exn + pyval"

record NejiFinderTuttiClient =
  tutti :: TuttiClient
  market :: TuttiMarketController

subsection \<open>Signing in and out\<close>

definition sign_in_works ::
  "NejiFinderTuttiClient \<Rightarrow> pyval \<Rightarrow> pyval \<Rightarrow> pyval \<Rightarrow> kwargs \<Rightarrow> unit io" where
  "sign_in_works c user_name password_hash token kw =
     bnd (effect (SignInWorks user_name password_hash token kw)
            (resource_sign_in (tutti c) user_name password_hash token kw)) (\<lambda>r.
     ret ())"

definition sign_in_market ::
  "NejiFinderTuttiClient \<Rightarrow> pyval \<Rightarrow> pyval \<Rightarrow> pyval \<Rightarrow> NejiFinderTuttiClient io" where
  "sign_in_market c user_id password access_token_lifetime =
     bnd (controller_sign_in (market c) user_id password access_token_lifetime) (\<lambda>mc.
     ret (c\<lparr>market := mc\<rparr>))"

text \<open>
  Binding \<open>**works_params\<close> to \<open>sign_in_works(self, user_name=None, password_hash=None,
  access_token=None, **kwargs)\<close> and \<open>**market_params\<close> to \<open>sign_in_market(self, user_id,
  password, access_token_lifetime=60*60*24*7*1000)\<close>: a key \<open>self\<close> collides with the
  bound method's first parameter, a key that is no parameter is an error where there is
  no \<open>**kwargs\<close>, and so is a missing parameter without a default.
\<close>

definition kw_get :: "kwargs \<Rightarrow> string \<Rightarrow> pyval \<Rightarrow> pyval" where
  "kw_get kw k dflt = (case map_of kw k of None \<Rightarrow> dflt | Some v \<Rightarrow> v)"

definition bind_works_params :: "kwargs \<Rightarrow> exn + (pyval \<times> pyval \<times> pyval \<times> kwargs)" where
  "bind_works_params kw =
     (if ''self'' \<in> set (map fst kw) then Inl TypeError
      else Inr (kw_get kw ''user_name'' PNone, kw_get kw ''password_hash'' PNone,
                kw_get kw ''access_token'' PNone,
                filter (\<lambda>kv. fst kv \<notin> set [''user_name'', ''password_hash'', ''access_token'']) kw))"

definition bind_market_params :: "kwargs \<Rightarrow> exn + (pyval \<times> pyval \<times> pyval)" where
  "bind_market_params kw =
     (if \<not> list_all (\<lambda>kv. fst kv \<in> set [''user_id'', ''password'', ''access_token_lifetime'']) kw
        then Inl TypeError
      else if map_of kw ''user_id'' = None \<or> map_of kw ''password'' = None then Inl TypeError
      else Inr (kw_get kw ''user_id'' PNone, kw_get kw ''password'' PNone,
                kw_get kw ''access_token_lifetime'' (PInt (60 * 60 * 24 * 7 * 1000))))"

definition sign_in :: "NejiFinderTuttiClient \<Rightarrow> kwargs \<Rightarrow> kwargs \<Rightarrow> NejiFinderTuttiClient io" where
  "sign_in c works_params market_params =
     bnd (bnd (expr (bind_works_params works_params))
            (\<lambda>(user_name, password_hash, token, kw). sign_in_works c user_name password_hash token kw)) (\<lambda>u.
     bnd (expr (bind_market_params market_params))
            (\<lambda>(user_id, password, access_token_lifetime).
               sign_in_market c user_id password access_token_lifetime))"

definition sign_out_market :: "NejiFinderTuttiClient \<Rightarrow> unit io" where
  "sign_out_market c = controller_sign_out (market c)"

definition sign_out_works :: "NejiFinderTuttiClient \<Rightarrow> unit io" where
  "sign_out_works c = bnd (effect SignOutWorks (resource_sign_out (tutti c))) (\<lambda>r. ret ())"

definition sign_out :: "NejiFinderTuttiClient \<Rightarrow> unit io" where
  "sign_out c = bnd (sign_out_market c) (\<lambda>u. sign_out_works c)"

subsection \<open>Publishing (\<open>publish_tasks_to_market\<close>)\<close>

text \<open>Lines 185 to 195: fetch the Automation Parameter Set.\<close>

definition aps_not_defined :: "string \<Rightarrow> string" where
  "aps_not_defined automation_parameter_set_id =
     ''Automation parameter set ID '' @ [dq] @ automation_parameter_set_id @ [dq] @ '' is not defined''"

definition fetch_aps :: "TuttiClient \<Rightarrow> string \<Rightarrow> pyval io" where
  "fetch_aps tc automation_parameter_set_id =
     bnd (expr (py_getitem (EVENT (tutti_duct tc)) ''AUTOMATION_PARAMETER_SET_GET'')) (\<lambda>ev.
     bnd (expr (py_getitem (account_info tc) ''access_token'')) (\<lambda>tok.
     bnd (duct_call Works (tutti_duct tc) ev
            (PDict [(''automation_parameter_set_id'', PStr automation_parameter_set_id),
                    (''access_token'', tok)])) (\<lambda>data.
     if truthy data then
       bnd (expr (py_getitem data ''content'')) (\<lambda>content.
       if truthy content then expr (py_getitem data ''content'')
       else raise (Exception (aps_not_defined automation_parameter_set_id)))
     else raise (Exception (aps_not_defined automation_parameter_set_id)))))"

text \<open>
  Lines 197 to 207: fetch the Platform Parameter Set. The test is \<open>if data:\<close> alone, and
  the message of the other branch is built by \<open>str.format\<close> from a template that reads
  \<open>"{}}"\<close> where the next message reads \<open>"{}"\<close>.
\<close>

definition pps_not_defined_template :: string where
  "pps_not_defined_template = ''Platform parameter set ID '' @ [dq] @ ''{}}'' @ [dq] @ '' is not defined''"

definition fetch_pps :: "TuttiClient \<Rightarrow> pyval \<Rightarrow> pyval io" where
  "fetch_pps tc aps =
     bnd (expr (py_getitem (EVENT (tutti_duct tc)) ''PLATFORM_PARAMETER_SET_GET'')) (\<lambda>ev.
     bnd (expr (py_getitem aps ''platform_parameter_set_id'')) (\<lambda>pid.
     bnd (expr (py_getitem (account_info tc) ''access_token'')) (\<lambda>tok.
     bnd (duct_call Works (tutti_duct tc) ev
            (PDict [(''platform_parameter_set_id'', pid), (''access_token'', tok)])) (\<lambda>data.
     if truthy data then expr (py_getitem data ''content'')
     else
       bnd (expr (py_getitem aps ''platform_parameter_set_id'')) (\<lambda>pid'.
       bnd (expr (py_format pps_not_defined_template [pid'])) (\<lambda>msg.
       raise (Exception msg)))))))"

text \<open>Lines 209 and 210: only the platform \<open>market\<close> is published to.\<close>

definition not_for_market_template :: string where
  "not_for_market_template = ''Platform parameter set ID '' @ [dq] @ ''{}'' @ [dq] @ '' is not set for market''"

definition check_platform :: "pyval \<Rightarrow> pyval \<Rightarrow> unit io" where
  "check_platform aps pps =
     bnd (expr (py_getitem pps ''platform'')) (\<lambda>platform.
     if platform \<noteq> PStr ''market'' then
       bnd (expr (py_getitem aps ''platform_parameter_set_id'')) (\<lambda>pid.
       bnd (expr (py_format not_for_market_template [pid])) (\<lambda>msg.
       raise (Exception msg)))
     else ret ())"

text \<open>
  Lines 212 to 239: one nanotask, named after the clock (\<open>int(time.time())\<close>, the
  argument \<open>time\<close>), and a group holding what \<open>create_nanotasks\<close> returned.
\<close>

definition nanotask :: "int \<Rightarrow> string \<Rightarrow> pyval" where
  "nanotask time sync_id =
     PDict [(''id'', PStr (py_str (PInt time))),
            (''props'', PDict [(''sync_id'', PStr sync_id)])]"

definition step_create_nanotasks :: "TuttiClient \<Rightarrow> pyval \<Rightarrow> int \<Rightarrow> string \<Rightarrow> pyval io" where
  "step_create_nanotasks tc aps time sync_id =
     bnd (expr (py_getitem aps ''project_name'')) (\<lambda>project_name.
     let kw = [(''project_name'', project_name),
               (''template_name'', PStr ''NejiFinderApp''),
               (''nanotasks'', PList [nanotask time sync_id]),
               (''tag'', PStr []),
               (''priority'', PInt 100),
               (''num_assignable'', PInt 0)]
     in bnd (effect (CreateNanotasks kw) (create_nanotasks tc kw)) (\<lambda>r.
        bnd (expr (py_getitem r ''nanotask_ids'')) (\<lambda>nids.
        bnd (print [PStr ''Nanotask IDs:'', nids]) (\<lambda>u.
        ret nids))))"

definition step_create_nanotask_group :: "TuttiClient \<Rightarrow> pyval \<Rightarrow> int \<Rightarrow> pyval \<Rightarrow> pyval io" where
  "step_create_nanotask_group tc aps time nids =
     bnd (expr (py_getitem aps ''project_name'')) (\<lambda>project_name.
     let kw = [(''name'', PStr (py_str (PInt time))),
               (''nanotask_ids'', nids),
               (''project_name'', project_name),
               (''template_name'', PStr ''NejiFinderApp'')]
     in bnd (effect (CreateNanotaskGroup kw) (create_nanotask_group tc kw)) (\<lambda>ngid.
        bnd (print [PStr ''Nanotask Group ID:'', ngid]) (\<lambda>u.
        ret ngid)))"

text \<open>Lines 241 to 245.\<close>

definition job_parameter :: "pyval \<Rightarrow> string \<Rightarrow> pyval \<Rightarrow> exn + pyval" where
  "job_parameter aps automation_parameter_set_id ngid =
     (case py_getitem aps ''platform_parameter_set_id'' of
        Inl e \<Rightarrow> Inl e
      | Inr pid \<Rightarrow>
          Inr (PDict [(''nanotask_group_ids'', PList [ngid]),
                      (''automation_parameter_set_id'', PStr automation_parameter_set_id),
                      (''platform_parameter_set_id'', pid)]))"

text \<open>
  Lines 247 to 266, the body of the \<open>try\<close>. \<open>int_or_none\<close> is the lambda of line 248.
  The name \<open>Error\<close> of line 261 is bound nowhere, so that line raises \<open>NameError\<close>.
\<close>

definition int_or_none :: "pyval \<Rightarrow> exn + pyval" where
  "int_or_none x =
     (if x \<noteq> PNone \<and> x \<noteq> PStr [] then map_sum id PInt (py_int x) else Inr PNone)"

definition pps_parameter :: "pyval \<Rightarrow> string \<Rightarrow> exn + pyval" where
  "pps_parameter pps k =
     (case py_getitem pps ''parameters'' of Inl e \<Rightarrow> Inl e | Inr ps \<Rightarrow> py_getitem ps k)"

definition register_and_check ::
  "TuttiMarketController \<Rightarrow> pyval \<Rightarrow> pyval \<Rightarrow> int \<Rightarrow> pyval \<Rightarrow> (pyval \<times> pyval) option io" where
  "register_and_check mc pps jp time ngid =
     bnd (expr (pps_parameter pps ''job_class_id'')) (\<lambda>job_class_id.
     bnd (expr (pps_parameter pps ''num_job_assignments_max'')) (\<lambda>n.
     bnd (expr (int_or_none n)) (\<lambda>num_job_assignments_max.
     bnd (expr (pps_parameter pps ''priorityScore'')) (\<lambda>p.
     bnd (expr (int_or_none p)) (\<lambda>priority_score.
     bnd (register_job mc job_class_id jp (PStr (''created at '' @ py_str (PInt time)))
            num_job_assignments_max priority_score) (\<lambda>res.
     bnd (expr (py_getitem res ''success'')) (\<lambda>success.
     bnd (if truthy success then expr (py_getitem res ''body'') else raise (NameError ''Error'')) (\<lambda>jid.
     bnd (expr (pps_parameter pps ''job_class_id'')) (\<lambda>job_class_id'.
     bnd (print [PStr ''Job Class ID:'', job_class_id']) (\<lambda>u.
     bnd (print [PStr ''Job ID:'', jid]) (\<lambda>u'.
     ret (Some (ngid, jid)))))))))))))"

text \<open>
  The whole method. The \<open>try\<close> starts at line 247, after the job parameter is built; its
  bare \<open>except\<close> prints the traceback, and the method then ends without a \<open>return\<close>,
  which is \<open>None\<close>.
\<close>

definition publish_tasks_to_market ::
  "NejiFinderTuttiClient \<Rightarrow> int \<Rightarrow> string \<Rightarrow> string \<Rightarrow> (pyval \<times> pyval) option io" where
  "publish_tasks_to_market c time automation_parameter_set_id sync_id =
     bnd (fetch_aps (tutti c) automation_parameter_set_id) (\<lambda>aps.
     bnd (fetch_pps (tutti c) aps) (\<lambda>pps.
     bnd (check_platform aps pps) (\<lambda>u.
     bnd (step_create_nanotasks (tutti c) aps time sync_id) (\<lambda>nids.
     bnd (step_create_nanotask_group (tutti c) aps time nids) (\<lambda>ngid.
     bnd (expr (job_parameter aps automation_parameter_set_id ngid)) (\<lambda>jp.
     try_except (register_and_check (market c) pps jp time ngid)
       (\<lambda>e. bnd (effect (PrintExc e) (Inr ())) (\<lambda>u'. ret None))))))))"

subsection \<open>Watching (\<open>watch_responses_for_tasks\<close>)\<close>

definition watch_topic :: string where
  "watch_topic = ''watch_responses_for_automation_parameter_set''"

definition watch_request :: "string \<Rightarrow> pyval option \<Rightarrow> kwargs" where
  "watch_request automation_parameter_set_id last_watch_id =
     [(''automation_parameter_set_id'', PStr automation_parameter_set_id),
      (''last_watch_id'', (case last_watch_id of None \<Rightarrow> PStr ''+'' | Some v \<Rightarrow> v)),
      (''exclusive'', PBool True)]"

definition watch_responses_for_tasks ::
  "NejiFinderTuttiClient \<Rightarrow> string \<Rightarrow> callable \<Rightarrow> pyval option \<Rightarrow> unit io" where
  "watch_responses_for_tasks c automation_parameter_set_id handler last_watch_id =
     bnd (effect (On watch_topic handler) (resource_on (tutti c) watch_topic handler)) (\<lambda>r.
     bnd (effect (Send watch_topic (watch_request automation_parameter_set_id last_watch_id))
            (resource_send (tutti c) watch_topic (watch_request automation_parameter_set_id last_watch_id))) (\<lambda>r'.
     ret ()))"

section \<open>Reading the log\<close>

fun is_creation :: "event \<Rightarrow> bool" where
  "is_creation (CreateNanotasks kw) = True"
| "is_creation (CreateNanotaskGroup kw) = True"
| "is_creation ev = False"

fun sent_payloads :: "side \<Rightarrow> event list \<Rightarrow> pyval list" where
  "sent_payloads s [] = []"
| "sent_payloads s (DuctCall s' ev payload # evs) =
     (if s' = s then payload # sent_payloads s evs else sent_payloads s evs)"
| "sent_payloads s (ev # evs) = sent_payloads s evs"

definition field_values :: "pyval \<Rightarrow> pyval list" where
  "field_values v = (case v of PDict kvs \<Rightarrow> map snd kvs | _ \<Rightarrow> [])"

section \<open>A concrete deployment\<close>

text \<open>
  Two services to run the client against: a task-management side that answers the two
  lookups with the given responses and the nanotask creation with the given outcome,
  and a marketplace that accepts every sign-in and every job.
\<close>

definition example_works_duct :: "pyval \<Rightarrow> pyval \<Rightarrow> duct" where
  "example_works_duct aps_response pps_response =
     \<lparr>EVENT = PDict [(''AUTOMATION_PARAMETER_SET_GET'', PInt 1),
                     (''PLATFORM_PARAMETER_SET_GET'', PInt 2)],
      call = (\<lambda>ev payload.
                if ev = PInt 1 then Inr aps_response
                else if ev = PInt 2 then Inr pps_response
                else Inl (Remote ''unknown event''))\<rparr>"

definition example_tutti :: "pyval \<Rightarrow> pyval \<Rightarrow> exn + pyval \<Rightarrow> TuttiClient" where
  "example_tutti aps_response pps_response nanotasks_outcome =
     \<lparr>tutti_duct = example_works_duct aps_response pps_response,
      account_info = PDict [(''access_token'', PStr ''works-token'')],
      resource_sign_in = (\<lambda>user_name password_hash token kw. Inr PNone),
      resource_sign_out = Inr PNone,
      create_nanotasks = (\<lambda>kw. nanotasks_outcome),
      create_nanotask_group = (\<lambda>kw. Inr (PStr ''ng-1'')),
      resource_on = (\<lambda>topic handler. Inr PNone),
      resource_send = (\<lambda>topic kw. Inr PNone)\<rparr>"

definition example_market_duct :: duct where
  "example_market_duct =
     \<lparr>EVENT = PDict [(''SIGN_IN'', PInt 10), (''REGISTER_JOB'', PInt 11), (''SIGN_OUT'', PInt 12)],
      call = (\<lambda>ev payload.
                if ev = PInt 10 then Inr (PDict [(''body'', PDict [(''access_token'', PStr ''market-token'')])])
                else if ev = PInt 11 then Inr (PDict [(''success'', PBool True), (''body'', PStr ''job-1'')])
                else Inr PNone)\<rparr>"

text \<open>
  A transport whose event table is not there yet (\<open>EVENT\<close> is \<open>None\<close>), or is there
  and empty.
\<close>

definition example_unopened_duct :: "pyval \<Rightarrow> duct" where
  "example_unopened_duct table = \<lparr>EVENT = table, call = (\<lambda>ev payload. Inr PNone)\<rparr>"

definition example_client :: "pyval \<Rightarrow> pyval \<Rightarrow> exn + pyval \<Rightarrow> pyval option \<Rightarrow> NejiFinderTuttiClient" where
  "example_client aps_response pps_response nanotasks_outcome token =
     \<lparr>tutti = example_tutti aps_response pps_response nanotasks_outcome,
      market = \<lparr>market_duct = example_market_duct, access_token = token\<rparr>\<rparr>"

definition example_aps :: pyval where
  "example_aps = PDict [(''platform_parameter_set_id'', PStr ''pps-1''), (''project_name'', PStr ''neji'')]"

definition example_pps :: "string \<Rightarrow> string \<Rightarrow> pyval" where
  "example_pps platform score_key =
     PDict [(''platform'', PStr platform),
            (''parameters'', PDict [(''job_class_id'', PStr ''jc1''),
                                    (''num_job_assignments_max'', PStr []),
                                    (score_key, PStr ''5'')])]"

definition example_nanotasks :: "exn + pyval" where
  "example_nanotasks = Inr (PDict [(''nanotask_ids'', PList [PStr ''n-1''])])"

text \<open>
  The deployment in which both lookups find their record, and the log a publication
  leaves there: the two lookups, then the two creations with their console lines.
\<close>

definition example_found ::
  "string \<Rightarrow> string \<Rightarrow> exn + pyval \<Rightarrow> pyval option \<Rightarrow> NejiFinderTuttiClient" where
  "example_found platform score_key nanotasks_outcome token =
     example_client (PDict [(''content'', example_aps)])
       (PDict [(''content'', example_pps platform score_key)])
       nanotasks_outcome token"

definition example_refusing :: NejiFinderTuttiClient where
  "example_refusing =
     \<lparr>tutti = (example_tutti PNone PNone example_nanotasks)
                \<lparr>resource_sign_in := (\<lambda>user_name password_hash token kw. Inl (Remote ''sign-in refused''))\<rparr>,
      market = controller_init example_market_duct\<rparr>"

definition example_aps_lookup :: "string \<Rightarrow> event" where
  "example_aps_lookup i =
     DuctCall Works (PInt 1)
       (PDict [(''automation_parameter_set_id'', PStr i), (''access_token'', PStr ''works-token'')])"

definition example_pps_lookup :: event where
  "example_pps_lookup =
     DuctCall Works (PInt 2)
       (PDict [(''platform_parameter_set_id'', PStr ''pps-1''), (''access_token'', PStr ''works-token'')])"

definition example_nanotasks_kw :: "int \<Rightarrow> string \<Rightarrow> kwargs" where
  "example_nanotasks_kw time sync_id =
     [(''project_name'', PStr ''neji''),
      (''template_name'', PStr ''NejiFinderApp''),
      (''nanotasks'', PList [nanotask time sync_id]),
      (''tag'', PStr []),
      (''priority'', PInt 100),
      (''num_assignable'', PInt 0)]"

definition example_group_kw :: "int \<Rightarrow> kwargs" where
  "example_group_kw time =
     [(''name'', PStr (py_str (PInt time))),
      (''nanotask_ids'', PList [PStr ''n-1'']),
      (''project_name'', PStr ''neji''),
      (''template_name'', PStr ''NejiFinderApp'')]"

definition example_created :: "int \<Rightarrow> string \<Rightarrow> string \<Rightarrow> event list" where
  "example_created time i sync_id =
     [example_aps_lookup i, example_pps_lookup,
      CreateNanotasks (example_nanotasks_kw time sync_id),
      Print [PStr ''Nanotask IDs:'', PList [PStr ''n-1'']],
      CreateNanotaskGroup (example_group_kw time),
      Print [PStr ''Nanotask Group ID:'', PStr ''ng-1'']]"

definition example_job_parameter :: "string \<Rightarrow> pyval" where
  "example_job_parameter i =
     PDict [(''nanotask_group_ids'', PList [PStr ''ng-1'']),
            (''automation_parameter_set_id'', PStr i),
            (''platform_parameter_set_id'', PStr ''pps-1'')]"

definition example_register_request :: "int \<Rightarrow> string \<Rightarrow> pyval" where
  "example_register_request time i =
     PDict [(''access_token'', PStr ''market-token''),
            (''job_class_id'', PStr ''jc1''),
            (''job_parameter'', example_job_parameter i),
            (''description'', PStr (''created at '' @ py_str (PInt time))),
            (''num_job_assignments_max'', PNone),
            (''priority_score'', PInt 5)]"

section \<open>Rules for running a computation\<close>

lemma bnd_expr_Inr [simp]: "bnd (expr (Inr x)) f = f x"
  by (simp add: bnd_def expr_def)

lemma bnd_expr_Inl [simp]: "bnd (expr (Inl e)) f = raise e"
  by (simp add: bnd_def expr_def raise_def)

lemma bnd_ret [simp]: "bnd (ret x) f = f x"
  by (simp add: bnd_def ret_def)

lemma bnd_raise [simp]: "bnd (raise e) f = raise e"
  by (simp add: bnd_def raise_def)

lemma raise_apply [simp]: "raise e t = (Inl e, t)"
  by (simp add: raise_def)

lemma ret_apply [simp]: "ret x t = (Inr x, t)"
  by (simp add: ret_def)

lemma expr_apply [simp]: "expr r t = (r, t)"
  by (simp add: expr_def)

lemma effect_apply [simp]: "effect ev r t = (r, t @ [ev])"
  by (simp add: effect_def)

lemma bnd_effect_Inr [simp]: "bnd (effect ev (Inr x)) f t = f x (t @ [ev])"
  by (simp add: bnd_def effect_def)

lemma bnd_effect_Inl [simp]: "bnd (effect ev (Inl e)) f t = (Inl e, t @ [ev])"
  by (simp add: bnd_def effect_def)

lemma py_format_not_for_market:
  "py_format not_for_market_template [pid] =
     Inr (''Platform parameter set ID '' @ [dq] @ py_str pid @ [dq] @ '' is not set for market'')"
  by (simp add: not_for_market_template_def)

lemma py_format_pps_not_defined:
  "py_format pps_not_defined_template [pid] = Inl single_close"
  by (simp add: pps_not_defined_template_def)

section \<open>The Marketplace Controller before and during sign-in\<close>

lemma controller_init_no_token: "access_token (controller_init d) = None"
  by (simp add: controller_init_def)

text \<open>
  C10, as the code has it. On a controller whose \<open>access_token\<close> was never assigned
  (as \<open>__init__\<close> leaves it, and only \<open>sign_in\<close> assigns it), \<open>register_job\<close> and
  \<open>sign_out\<close> both fail with the log unchanged, that is before any request goes out.
  The call expression subscripts the transport's event table before it reads
  \<open>self.access_token\<close>: the failure is the attribute error on \<open>access_token\<close> when the
  table defines the event name, and the error of that subscription otherwise.
\<close>

theorem unsigned_controller_fails_locally:
  assumes "access_token mc = None"
  shows "(\<exists>e. register_job mc job_class_id jp description n p t = (Inl e, t) \<and>
            (\<forall>ev. py_getitem (EVENT (market_duct mc)) ''REGISTER_JOB'' = Inr ev \<longrightarrow>
                    e = AttributeError ''access_token'')) \<and>
         (\<exists>e. controller_sign_out mc t = (Inl e, t) \<and>
            (\<forall>ev. py_getitem (EVENT (market_duct mc)) ''SIGN_OUT'' = Inr ev \<longrightarrow>
                    e = AttributeError ''access_token''))"
proof -
  have tok: "get_access_token mc = Inl (AttributeError ''access_token'')"
    using assms by (simp add: get_access_token_def)
  have r: "\<exists>e. register_job mc job_class_id jp description n p t = (Inl e, t) \<and>
            (\<forall>ev. py_getitem (EVENT (market_duct mc)) ''REGISTER_JOB'' = Inr ev \<longrightarrow>
                    e = AttributeError ''access_token'')"
    by (cases "py_getitem (EVENT (market_duct mc)) ''REGISTER_JOB''")
       (simp_all add: register_job_def tok)
  have s: "\<exists>e. controller_sign_out mc t = (Inl e, t) \<and>
            (\<forall>ev. py_getitem (EVENT (market_duct mc)) ''SIGN_OUT'' = Inr ev \<longrightarrow>
                    e = AttributeError ''access_token'')"
    by (cases "py_getitem (EVENT (market_duct mc)) ''SIGN_OUT''")
       (simp_all add: controller_sign_out_def tok)
  from r s show ?thesis by blast
qed

theorem unsigned_controller_fails_locally_witness:
  "access_token (controller_init example_market_duct) = None \<and>
   py_getitem (EVENT (market_duct (controller_init example_market_duct))) ''REGISTER_JOB'' = Inr (PInt 11) \<and>
   py_getitem (EVENT (market_duct (controller_init example_market_duct))) ''SIGN_OUT'' = Inr (PInt 12) \<and>
   register_job (controller_init example_market_duct) (PStr ''jc1'') PNone PNone PNone PNone [] =
     (Inl (AttributeError ''access_token''), []) \<and>
   controller_sign_out (controller_init example_market_duct) [] =
     (Inl (AttributeError ''access_token''), [])"
proof -
  have a: "access_token (controller_init example_market_duct) = None"
    by (simp add: controller_init_def)
  have r: "py_getitem (EVENT (market_duct (controller_init example_market_duct))) ''REGISTER_JOB'' = Inr (PInt 11)"
    by (simp add: controller_init_def example_market_duct_def)
  have s: "py_getitem (EVENT (market_duct (controller_init example_market_duct))) ''SIGN_OUT'' = Inr (PInt 12)"
    by (simp add: controller_init_def example_market_duct_def)
  from unsigned_controller_fails_locally [OF a, of "PStr ''jc1''" PNone PNone PNone PNone "[]"] r s a
  show ?thesis by auto
qed

text \<open>
  A controller just constructed on a transport whose table is \<open>None\<close>: both calls fail
  locally, with the \<open>TypeError\<close> of subscripting \<open>None\<close>, not with an attribute error.
\<close>

theorem unopened_controller_type_error_counterexample:
  "access_token (controller_init (example_unopened_duct PNone)) = None \<and>
   register_job (controller_init (example_unopened_duct PNone)) (PStr ''jc1'') PNone PNone PNone PNone [] =
     (Inl TypeError, []) \<and>
   controller_sign_out (controller_init (example_unopened_duct PNone)) [] = (Inl TypeError, [])"
  by (simp add: register_job_def controller_sign_out_def controller_init_def example_unopened_duct_def)

text \<open>With a table that is there and lacks the names, the error is the \<open>KeyError\<close>.\<close>

lemma empty_table_key_error:
  "register_job (controller_init (example_unopened_duct (PDict []))) (PStr ''jc1'') PNone PNone PNone PNone [] =
     (Inl (KeyError ''REGISTER_JOB''), []) \<and>
   controller_sign_out (controller_init (example_unopened_duct (PDict []))) [] =
     (Inl (KeyError ''SIGN_OUT''), [])"
  by (simp add: register_job_def controller_sign_out_def controller_init_def example_unopened_duct_def)

text \<open>
  C9, as the code has it. For every user id, every ASCII password and every lifetime,
  on a transport whose table defines \<open>SIGN_IN\<close>, the one request \<open>sign_in\<close> sends carries
  the SHA-512 digest of the password's bytes in \<open>password_hash\<close>, and a field of that
  request equals the plaintext password exactly when the caller's user id is the same
  string as the password: the password itself is put in no field.
\<close>

theorem sign_in_request_carries_digest:
  assumes ev: "py_getitem (EVENT (market_duct mc)) ''SIGN_IN'' = Inr ev"
      and ascii: "list_all (\<lambda>c. of_char c < (128::nat)) password"
  shows "sent_payloads Market (snd (controller_sign_in mc (PStr user_id) (PStr password) (PInt lifetime) [])) =
           [sign_in_request (PStr user_id) (map of_char password) (PInt lifetime)] \<and>
         py_getitem (sign_in_request (PStr user_id) (map of_char password) (PInt lifetime)) ''password_hash'' =
           Inr (PBytes (sha512 (map of_char password))) \<and>
         (PStr password \<in> set (field_values (sign_in_request (PStr user_id) (map of_char password) (PInt lifetime)))
            \<longleftrightarrow> user_id = password)"
proof -
  let ?req = "sign_in_request (PStr user_id) (map of_char password) (PInt lifetime)"
  have enc: "encode_ascii (PStr password) = Inr (map of_char password)"
    using ascii by (simp add: encode_ascii_def)
  have "snd (controller_sign_in mc (PStr user_id) (PStr password) (PInt lifetime) []) = [DuctCall Market ev ?req]"
    by (cases "call (market_duct mc) ev ?req")
       (simp_all add: controller_sign_in_def ev enc duct_call_def bnd_def split: sum.splits prod.splits)
  then show ?thesis
    by (auto simp: sign_in_request_def field_values_def)
qed

theorem sign_in_request_carries_digest_witness:
  "py_getitem (EVENT (market_duct (controller_init example_market_duct))) ''SIGN_IN'' = Inr (PInt 10) \<and>
   list_all (\<lambda>c. of_char c < (128::nat)) ''secret'' \<and>
   sent_payloads Market (snd (controller_sign_in (controller_init example_market_duct)
       (PStr ''requester1'') (PStr ''secret'') (PInt 604800000) [])) =
     [sign_in_request (PStr ''requester1'') (map of_char ''secret'') (PInt 604800000)] \<and>
   py_getitem (sign_in_request (PStr ''requester1'') (map of_char ''secret'') (PInt 604800000)) ''password_hash'' =
     Inr (PBytes (sha512 (map of_char ''secret''))) \<and>
   PStr ''secret'' \<notin> set (field_values (sign_in_request (PStr ''requester1'') (map of_char ''secret'') (PInt 604800000)))"
proof -
  have ev: "py_getitem (EVENT (market_duct (controller_init example_market_duct))) ''SIGN_IN'' = Inr (PInt 10)"
    by (simp add: controller_init_def example_market_duct_def)
  have ascii: "list_all (\<lambda>c. of_char c < (128::nat)) ''secret''"
    by simp
  from sign_in_request_carries_digest [OF ev ascii, of "''requester1''" 604800000] ev ascii
  show ?thesis by simp
qed

text \<open>
  The credentials of the repository's own example script, user id and password both
  \<open>requester1\<close>: the request that goes out holds the plaintext password, in \<open>user_id\<close>.
\<close>

theorem sign_in_same_user_id_and_password_counterexample:
  "PStr ''requester1'' \<in> set (concat (map field_values (sent_payloads Market
     (snd (controller_sign_in (controller_init example_market_duct)
        (PStr ''requester1'') (PStr ''requester1'') (PInt 604800000) [])))))"
  by (simp add: controller_sign_in_def controller_init_def example_market_duct_def encode_ascii_def
        duct_call_def sign_in_request_def field_values_def)

section \<open>The deployment, step by step\<close>

lemma py_int_five: "py_int (PStr ''5'') = Inr 5"
  by (simp add: int_of_text_def strip_def is_space_def)

lemma py_str_example_time: "py_str (PInt 1700000000) = ''1700000000''"
  by (simp add: py_str_def dec_int_def dec_nat.simps char_of_eq_iff)

lemma example_fetch_aps:
  "fetch_aps (tutti (example_found platform score_key outcome token)) i t =
     (Inr example_aps, t @ [example_aps_lookup i])"
  by (simp add: fetch_aps_def example_found_def example_client_def example_tutti_def
        example_works_duct_def example_aps_def example_aps_lookup_def duct_call_def)

lemma example_fetch_pps:
  "fetch_pps (tutti (example_found platform score_key outcome token)) example_aps t =
     (Inr (example_pps platform score_key), t @ [example_pps_lookup])"
  by (simp add: fetch_pps_def example_found_def example_client_def example_tutti_def
        example_works_duct_def example_aps_def example_pps_def example_pps_lookup_def duct_call_def)

lemma example_platform: "py_getitem (example_pps platform score_key) ''platform'' = Inr (PStr platform)"
  by (simp add: example_pps_def)

lemma example_step_create_nanotasks:
  "step_create_nanotasks (tutti (example_found platform score_key example_nanotasks token)) example_aps time sync_id t =
     (Inr (PList [PStr ''n-1'']),
      t @ [CreateNanotasks (example_nanotasks_kw time sync_id), Print [PStr ''Nanotask IDs:'', PList [PStr ''n-1'']]])"
  by (simp add: step_create_nanotasks_def example_found_def example_client_def example_tutti_def
        example_aps_def example_nanotasks_def example_nanotasks_kw_def print_def)

lemma example_step_create_nanotasks_fails:
  "step_create_nanotasks (tutti (example_found platform score_key (Inl e) token)) example_aps time sync_id t =
     (Inl e, t @ [CreateNanotasks (example_nanotasks_kw time sync_id)])"
  by (simp add: step_create_nanotasks_def example_found_def example_client_def example_tutti_def
        example_aps_def example_nanotasks_kw_def)

lemma example_step_create_nanotask_group:
  "step_create_nanotask_group (tutti (example_found platform score_key outcome token)) example_aps time (PList [PStr ''n-1'']) t =
     (Inr (PStr ''ng-1''),
      t @ [CreateNanotaskGroup (example_group_kw time), Print [PStr ''Nanotask Group ID:'', PStr ''ng-1'']])"
  by (simp add: step_create_nanotask_group_def example_found_def example_client_def example_tutti_def
        example_aps_def example_group_kw_def print_def)

lemma example_job_parameter_eq:
  "job_parameter example_aps i (PStr ''ng-1'') = Inr (example_job_parameter i)"
  by (simp add: job_parameter_def example_aps_def example_job_parameter_def)

lemma example_register_job:
  "register_job (market (example_found platform score_key outcome (Some (PStr ''market-token'')))) (PStr ''jc1'') (example_job_parameter i)
     (PStr (''created at '' @ py_str (PInt time))) PNone (PInt 5) t =
     (Inr (PDict [(''success'', PBool True), (''body'', PStr ''job-1'')]),
      t @ [DuctCall Market (PInt 11) (example_register_request time i)])"
  by (simp add: register_job_def example_found_def example_client_def example_market_duct_def
        get_access_token_def duct_call_def example_register_request_def)

lemma example_register_and_check:
  "register_and_check (market (example_found platform ''priorityScore'' outcome (Some (PStr ''market-token''))))
     (example_pps platform ''priorityScore'') (example_job_parameter i) time (PStr ''ng-1'') t =
     (Inr (Some (PStr ''ng-1'', PStr ''job-1'')),
      t @ [DuctCall Market (PInt 11) (example_register_request time i),
           Print [PStr ''Job Class ID:'', PStr ''jc1''], Print [PStr ''Job ID:'', PStr ''job-1'']])"
  using example_register_job [of platform "''priorityScore''" outcome i time t]
  by (simp add: register_and_check_def pps_parameter_def example_pps_def int_or_none_def py_int_five
        bnd_def print_def del: py_int.simps)

lemma example_register_and_check_snake:
  "register_and_check (market (example_found platform ''priority_score'' outcome token))
     (example_pps platform ''priority_score'') jp time ngid t =
     (Inl (KeyError ''priorityScore''), t)"
  by (simp add: register_and_check_def pps_parameter_def example_pps_def int_or_none_def)

lemma example_register_and_check_unsigned:
  "register_and_check (market (example_found platform ''priorityScore'' outcome None))
     (example_pps platform ''priorityScore'') jp time ngid t =
     (Inl (AttributeError ''access_token''), t)"
  by (simp add: register_and_check_def pps_parameter_def example_pps_def int_or_none_def py_int_five
        register_job_def example_found_def example_client_def example_market_duct_def
        get_access_token_def bnd_def del: py_int.simps)

lemma example_run_aps:
  "fetch_aps (tutti (example_found platform score_key outcome token)) i [] =
     (Inr example_aps, [example_aps_lookup i])"
  using example_fetch_aps [of platform score_key outcome token i "[]"] by simp

lemma example_run_pps:
  "fetch_pps (tutti (example_found platform score_key outcome token)) example_aps [example_aps_lookup i] =
     (Inr (example_pps platform score_key), [example_aps_lookup i, example_pps_lookup])"
  using example_fetch_pps [of platform score_key outcome token "[example_aps_lookup i]"] by simp

lemma example_run_nanotasks:
  "step_create_nanotasks (tutti (example_found platform score_key example_nanotasks token)) example_aps time sync_id
     [example_aps_lookup i, example_pps_lookup] =
     (Inr (PList [PStr ''n-1'']),
      [example_aps_lookup i, example_pps_lookup, CreateNanotasks (example_nanotasks_kw time sync_id),
       Print [PStr ''Nanotask IDs:'', PList [PStr ''n-1'']]])"
  using example_step_create_nanotasks [of platform score_key token time sync_id
          "[example_aps_lookup i, example_pps_lookup]"] by simp

lemma example_run_group:
  "step_create_nanotask_group (tutti (example_found platform score_key outcome token)) example_aps time
     (PList [PStr ''n-1''])
     [example_aps_lookup i, example_pps_lookup, CreateNanotasks (example_nanotasks_kw time sync_id),
      Print [PStr ''Nanotask IDs:'', PList [PStr ''n-1'']]] =
     (Inr (PStr ''ng-1''), example_created time i sync_id)"
  using example_step_create_nanotask_group [of platform score_key outcome token time
          "[example_aps_lookup i, example_pps_lookup, CreateNanotasks (example_nanotasks_kw time sync_id),
            Print [PStr ''Nanotask IDs:'', PList [PStr ''n-1'']]]"]
  by (simp add: example_created_def)

section \<open>Publishing: the two lookups and the platform check\<close>

lemma fetch_aps_log: "filter is_creation (snd (fetch_aps tc i t)) = filter is_creation t"
  by (simp add: fetch_aps_def bnd_def duct_call_def split: sum.splits prod.splits)

lemma fetch_pps_log: "filter is_creation (snd (fetch_pps tc aps t)) = filter is_creation t"
  by (simp add: fetch_pps_def bnd_def duct_call_def split: sum.splits prod.splits)

lemma sublist_aps_not_defined: "sublist i (aps_not_defined i)"
  unfolding aps_not_defined_def
  by (metis sublist_appendI append.assoc)

text \<open>
  C6. When the task-management side answers \<open>AUTOMATION_PARAMETER_SET_GET\<close> with no
  record (a response that is false, or whose \<open>content\<close> is false), the method fails with
  the error \<open>Automation parameter set ID "<id>" is not defined\<close>, which holds the id, and
  the log holds that one lookup and nothing else: no nanotask was created.
\<close>

theorem publish_unknown_aps:
  assumes ev: "py_getitem (EVENT (tutti_duct (tutti c))) ''AUTOMATION_PARAMETER_SET_GET'' = Inr ev"
      and tok: "py_getitem (account_info (tutti c)) ''access_token'' = Inr tok"
      and reply: "call (tutti_duct (tutti c)) ev
                    (PDict [(''automation_parameter_set_id'', PStr i), (''access_token'', tok)]) = Inr data"
      and absent: "\<not> truthy data \<or> (\<exists>content. py_getitem data ''content'' = Inr content \<and> \<not> truthy content)"
  shows "publish_tasks_to_market c time i sync_id t =
           (Inl (Exception (aps_not_defined i)),
            t @ [DuctCall Works ev (PDict [(''automation_parameter_set_id'', PStr i), (''access_token'', tok)])]) \<and>
         sublist i (aps_not_defined i)"
proof -
  have "fetch_aps (tutti c) i t =
          (Inl (Exception (aps_not_defined i)),
           t @ [DuctCall Works ev (PDict [(''automation_parameter_set_id'', PStr i), (''access_token'', tok)])])"
    using absent by (auto simp: fetch_aps_def ev tok reply duct_call_def)
  then have "publish_tasks_to_market c time i sync_id t =
          (Inl (Exception (aps_not_defined i)),
           t @ [DuctCall Works ev (PDict [(''automation_parameter_set_id'', PStr i), (''access_token'', tok)])])"
    by (simp add: publish_tasks_to_market_def bnd_def)
  then show ?thesis by (simp add: sublist_aps_not_defined)
qed

theorem publish_unknown_aps_witness:
  "py_getitem (EVENT (tutti_duct (tutti (example_client PNone PNone example_nanotasks None))))
     ''AUTOMATION_PARAMETER_SET_GET'' = Inr (PInt 1) \<and>
   py_getitem (account_info (tutti (example_client PNone PNone example_nanotasks None)))
     ''access_token'' = Inr (PStr ''works-token'') \<and>
   call (tutti_duct (tutti (example_client PNone PNone example_nanotasks None))) (PInt 1)
     (PDict [(''automation_parameter_set_id'', PStr ''aps-0''), (''access_token'', PStr ''works-token'')]) = Inr PNone \<and>
   \<not> truthy PNone \<and>
   publish_tasks_to_market (example_client PNone PNone example_nanotasks None) 1700000000 ''aps-0'' ''sync-1'' [] =
     (Inl (Exception (''Automation parameter set ID '' @ [dq] @ ''aps-0'' @ [dq] @ '' is not defined'')),
      [example_aps_lookup ''aps-0''])"
proof -
  let ?c = "example_client PNone PNone example_nanotasks None"
  have ev: "py_getitem (EVENT (tutti_duct (tutti ?c))) ''AUTOMATION_PARAMETER_SET_GET'' = Inr (PInt 1)"
    by (simp add: example_client_def example_tutti_def example_works_duct_def)
  have tok: "py_getitem (account_info (tutti ?c)) ''access_token'' = Inr (PStr ''works-token'')"
    by (simp add: example_client_def example_tutti_def)
  have reply: "call (tutti_duct (tutti ?c)) (PInt 1)
     (PDict [(''automation_parameter_set_id'', PStr ''aps-0''), (''access_token'', PStr ''works-token'')]) = Inr PNone"
    by (simp add: example_client_def example_tutti_def example_works_duct_def)
  have absent: "\<not> truthy PNone \<or> (\<exists>content. py_getitem PNone ''content'' = Inr content \<and> \<not> truthy content)"
    by simp
  from publish_unknown_aps [OF ev tok reply absent, of 1700000000 "''sync-1''" "[]"] ev tok reply
  show ?thesis by (simp add: aps_not_defined_def example_aps_lookup_def)
qed

text \<open>
  C5. When both lookups return and the platform field of the Platform Parameter Set is
  anything but \<open>market\<close>, the method fails with the error \<open>Platform parameter set ID
  "<id>" is not set for market\<close>, where the id is \<open>str\<close> of the Platform Parameter Set id
  the Automation Parameter Set refers to (the id itself when it is a string), and the
  log then holds no creation beyond those it held before the call.
\<close>

theorem publish_platform_not_market:
  assumes aps: "fetch_aps (tutti c) i t = (Inr aps, t1)"
      and pps: "fetch_pps (tutti c) aps t1 = (Inr pps, t2)"
      and pid: "py_getitem aps ''platform_parameter_set_id'' = Inr pid"
      and platform: "py_getitem pps ''platform'' = Inr platform"
      and other: "platform \<noteq> PStr ''market''"
  shows "publish_tasks_to_market c time i sync_id t =
           (Inl (Exception (''Platform parameter set ID '' @ [dq] @ py_str pid @ [dq] @ '' is not set for market'')), t2) \<and>
         filter is_creation t2 = filter is_creation t"
proof -
  have "check_platform aps pps t2 =
          (Inl (Exception (''Platform parameter set ID '' @ [dq] @ py_str pid @ [dq] @ '' is not set for market'')), t2)"
    using other by (simp add: check_platform_def platform pid py_format_not_for_market)
  then have run: "publish_tasks_to_market c time i sync_id t =
          (Inl (Exception (''Platform parameter set ID '' @ [dq] @ py_str pid @ [dq] @ '' is not set for market'')), t2)"
    by (simp add: publish_tasks_to_market_def bnd_def aps pps)
  have "filter is_creation t1 = filter is_creation t"
    using fetch_aps_log [of "tutti c" i t] aps by simp
  moreover have "filter is_creation t2 = filter is_creation t1"
    using fetch_pps_log [of "tutti c" aps t1] pps by simp
  ultimately show ?thesis using run by simp
qed

theorem publish_platform_not_market_witness:
  "fetch_aps (tutti (example_found ''works'' ''priorityScore'' example_nanotasks None)) ''aps-1'' [] =
     (Inr example_aps, [example_aps_lookup ''aps-1'']) \<and>
   fetch_pps (tutti (example_found ''works'' ''priorityScore'' example_nanotasks None)) example_aps
     [example_aps_lookup ''aps-1''] =
     (Inr (example_pps ''works'' ''priorityScore''), [example_aps_lookup ''aps-1'', example_pps_lookup]) \<and>
   py_getitem example_aps ''platform_parameter_set_id'' = Inr (PStr ''pps-1'') \<and>
   py_getitem (example_pps ''works'' ''priorityScore'') ''platform'' = Inr (PStr ''works'') \<and>
   PStr ''works'' \<noteq> PStr ''market'' \<and>
   publish_tasks_to_market (example_found ''works'' ''priorityScore'' example_nanotasks None)
     1700000000 ''aps-1'' ''sync-1'' [] =
     (Inl (Exception (''Platform parameter set ID '' @ [dq] @ ''pps-1'' @ [dq] @ '' is not set for market'')),
      [example_aps_lookup ''aps-1'', example_pps_lookup]) \<and>
   filter is_creation [example_aps_lookup ''aps-1'', example_pps_lookup] = []"
proof -
  let ?c = "example_found ''works'' ''priorityScore'' example_nanotasks None"
  have aps: "fetch_aps (tutti ?c) ''aps-1'' [] = (Inr example_aps, [example_aps_lookup ''aps-1''])"
    using example_fetch_aps [of "''works''" "''priorityScore''" example_nanotasks None "''aps-1''" "[]"] by simp
  have pps: "fetch_pps (tutti ?c) example_aps [example_aps_lookup ''aps-1''] =
     (Inr (example_pps ''works'' ''priorityScore''), [example_aps_lookup ''aps-1'', example_pps_lookup])"
    using example_fetch_pps [of "''works''" "''priorityScore''" example_nanotasks None "[example_aps_lookup ''aps-1'']"]
    by simp
  have pid: "py_getitem example_aps ''platform_parameter_set_id'' = Inr (PStr ''pps-1'')"
    by (simp add: example_aps_def)
  have platform: "py_getitem (example_pps ''works'' ''priorityScore'') ''platform'' = Inr (PStr ''works'')"
    by (rule example_platform)
  have other: "PStr ''works'' \<noteq> PStr ''market''"
    by simp
  from publish_platform_not_market [OF aps pps pid platform other, of 1700000000 "''sync-1''"]
    aps pps pid platform
  show ?thesis by (simp add: py_str_def)
qed

text \<open>
  C3. The Automation Parameter Set is found and the lookup of its Platform Parameter
  Set returns \<open>None\<close>. The method does fail before the platform check and before any
  creation, but with the \<open>ValueError\<close> that \<open>str.format\<close> raises on the template of
  line 207, not with an error naming the id.
\<close>

theorem publish_absent_pps_value_error:
  "publish_tasks_to_market
     (example_client (PDict [(''content'', example_aps)]) PNone example_nanotasks (Some (PStr ''market-token'')))
     1700000000 ''aps-1'' ''sync-1'' [] =
     (Inl (ValueError (''Single '' @ [sq] @ ''}'' @ [sq] @ '' encountered in format string'')),
      [example_aps_lookup ''aps-1'', example_pps_lookup])"
  by (simp add: publish_tasks_to_market_def fetch_aps_def fetch_pps_def example_client_def
        example_tutti_def example_works_duct_def example_aps_def duct_call_def
        py_format_pps_not_defined single_close_def example_aps_lookup_def example_pps_lookup_def bnd_def)

text \<open>
  A response that is there but holds no record passes the test of line 204 and fails
  in the platform check instead.
\<close>

lemma publish_empty_pps_type_error:
  "publish_tasks_to_market
     (example_client (PDict [(''content'', example_aps)]) (PDict [(''content'', PNone)]) example_nanotasks
        (Some (PStr ''market-token'')))
     1700000000 ''aps-1'' ''sync-1'' [] =
     (Inl TypeError, [example_aps_lookup ''aps-1'', example_pps_lookup])"
  by (simp add: publish_tasks_to_market_def fetch_aps_def fetch_pps_def check_platform_def example_client_def
        example_tutti_def example_works_duct_def example_aps_def duct_call_def
        example_aps_lookup_def example_pps_lookup_def bnd_def)

section \<open>Publishing: creation and registration\<close>

lemma step_create_nanotask_group_run:
  assumes "py_getitem aps ''project_name'' = Inr project_name"
      and "create_nanotask_group tc
             [(''name'', PStr (py_str (PInt time))), (''nanotask_ids'', nids),
              (''project_name'', project_name), (''template_name'', PStr ''NejiFinderApp'')] = Inr ngid"
  shows "step_create_nanotask_group tc aps time nids t =
           (Inr ngid,
            t @ [CreateNanotaskGroup
                   [(''name'', PStr (py_str (PInt time))), (''nanotask_ids'', nids),
                    (''project_name'', project_name), (''template_name'', PStr ''NejiFinderApp'')],
                 Print [PStr ''Nanotask Group ID:'', ngid]])"
  using assms by (simp add: step_create_nanotask_group_def print_def)

lemma publish_after_creation:
  assumes aps: "fetch_aps (tutti c) i t = (Inr aps, t1)"
      and pps: "fetch_pps (tutti c) aps t1 = (Inr pps, t2)"
      and platform: "py_getitem pps ''platform'' = Inr (PStr ''market'')"
      and nids: "step_create_nanotasks (tutti c) aps time sync_id t2 = (Inr nids, t3)"
      and group: "step_create_nanotask_group (tutti c) aps time nids t3 = (Inr ngid, t4)"
      and jp: "job_parameter aps i ngid = Inr jp"
  shows "publish_tasks_to_market c time i sync_id t =
           try_except (register_and_check (market c) pps jp time ngid)
             (\<lambda>e. bnd (effect (PrintExc e) (Inr ())) (\<lambda>u'. ret None)) t4"
  by (simp add: publish_tasks_to_market_def bnd_def aps pps check_platform_def platform nids group jp)

lemma example_publish_until_try:
  "publish_tasks_to_market (example_found ''market'' score_key example_nanotasks token) time i sync_id [] =
     try_except (register_and_check (market (example_found ''market'' score_key example_nanotasks token))
                   (example_pps ''market'' score_key) (example_job_parameter i) time (PStr ''ng-1''))
       (\<lambda>e. bnd (effect (PrintExc e) (Inr ())) (\<lambda>u'. ret None)) (example_created time i sync_id)"
proof -
  let ?c = "example_found ''market'' score_key example_nanotasks token"
  have aps: "fetch_aps (tutti ?c) i [] = (Inr example_aps, [example_aps_lookup i])"
    using example_fetch_aps [of "''market''" score_key example_nanotasks token i "[]"] by simp
  have pps: "fetch_pps (tutti ?c) example_aps [example_aps_lookup i] =
     (Inr (example_pps ''market'' score_key), [example_aps_lookup i, example_pps_lookup])"
    using example_fetch_pps [of "''market''" score_key example_nanotasks token "[example_aps_lookup i]"] by simp
  have nids: "step_create_nanotasks (tutti ?c) example_aps time sync_id [example_aps_lookup i, example_pps_lookup] =
     (Inr (PList [PStr ''n-1'']),
      [example_aps_lookup i, example_pps_lookup, CreateNanotasks (example_nanotasks_kw time sync_id),
       Print [PStr ''Nanotask IDs:'', PList [PStr ''n-1'']]])"
    using example_step_create_nanotasks [of "''market''" score_key token time sync_id
            "[example_aps_lookup i, example_pps_lookup]"] by simp
  have group: "step_create_nanotask_group (tutti ?c) example_aps time (PList [PStr ''n-1''])
      [example_aps_lookup i, example_pps_lookup, CreateNanotasks (example_nanotasks_kw time sync_id),
       Print [PStr ''Nanotask IDs:'', PList [PStr ''n-1'']]] =
     (Inr (PStr ''ng-1''), example_created time i sync_id)"
    using example_step_create_nanotask_group [of "''market''" score_key example_nanotasks token time
            "[example_aps_lookup i, example_pps_lookup, CreateNanotasks (example_nanotasks_kw time sync_id),
              Print [PStr ''Nanotask IDs:'', PList [PStr ''n-1'']]]"]
    by (simp add: example_created_def)
  show ?thesis
    by (rule publish_after_creation [OF aps pps example_platform nids group example_job_parameter_eq])
qed

text \<open>
  C1, as the code has it. Once the lookups, the platform check, both creations and the
  job parameter are through, whatever the body of the \<open>try\<close> raises (reading the
  parameter bag, the integer coercion, \<open>register_job\<close>, the success check) is printed and
  the method returns \<open>None\<close>; from that point on it raises nothing.
\<close>

theorem try_block_swallows:
  assumes aps: "fetch_aps (tutti c) i t = (Inr aps, t1)"
      and pps: "fetch_pps (tutti c) aps t1 = (Inr pps, t2)"
      and platform: "py_getitem pps ''platform'' = Inr (PStr ''market'')"
      and nids: "step_create_nanotasks (tutti c) aps time sync_id t2 = (Inr nids, t3)"
      and group: "step_create_nanotask_group (tutti c) aps time nids t3 = (Inr ngid, t4)"
      and jp: "job_parameter aps i ngid = Inr jp"
  shows "(\<forall>e t5. register_and_check (market c) pps jp time ngid t4 = (Inl e, t5) \<longrightarrow>
            publish_tasks_to_market c time i sync_id t = (Inr None, t5 @ [PrintExc e])) \<and>
         (\<forall>e. fst (publish_tasks_to_market c time i sync_id t) \<noteq> Inl e)"
  unfolding publish_after_creation [OF assms]
  by (auto simp: try_except_def split: sum.splits prod.splits)

theorem try_block_swallows_witness:
  "fetch_aps (tutti (example_found ''market'' ''priorityScore'' example_nanotasks None)) ''aps-1'' [] =
     (Inr example_aps, [example_aps_lookup ''aps-1'']) \<and>
   fetch_pps (tutti (example_found ''market'' ''priorityScore'' example_nanotasks None)) example_aps
     [example_aps_lookup ''aps-1''] =
     (Inr (example_pps ''market'' ''priorityScore''), [example_aps_lookup ''aps-1'', example_pps_lookup]) \<and>
   py_getitem (example_pps ''market'' ''priorityScore'') ''platform'' = Inr (PStr ''market'') \<and>
   step_create_nanotasks (tutti (example_found ''market'' ''priorityScore'' example_nanotasks None)) example_aps
     1700000000 ''sync-1'' [example_aps_lookup ''aps-1'', example_pps_lookup] =
     (Inr (PList [PStr ''n-1'']),
      [example_aps_lookup ''aps-1'', example_pps_lookup, CreateNanotasks (example_nanotasks_kw 1700000000 ''sync-1''),
       Print [PStr ''Nanotask IDs:'', PList [PStr ''n-1'']]]) \<and>
   step_create_nanotask_group (tutti (example_found ''market'' ''priorityScore'' example_nanotasks None)) example_aps
     1700000000 (PList [PStr ''n-1''])
     [example_aps_lookup ''aps-1'', example_pps_lookup, CreateNanotasks (example_nanotasks_kw 1700000000 ''sync-1''),
      Print [PStr ''Nanotask IDs:'', PList [PStr ''n-1'']]] =
     (Inr (PStr ''ng-1''), example_created 1700000000 ''aps-1'' ''sync-1'') \<and>
   job_parameter example_aps ''aps-1'' (PStr ''ng-1'') = Inr (example_job_parameter ''aps-1'') \<and>
   register_and_check (market (example_found ''market'' ''priorityScore'' example_nanotasks None))
     (example_pps ''market'' ''priorityScore'') (example_job_parameter ''aps-1'') 1700000000 (PStr ''ng-1'')
     (example_created 1700000000 ''aps-1'' ''sync-1'') =
     (Inl (AttributeError ''access_token''), example_created 1700000000 ''aps-1'' ''sync-1'') \<and>
   publish_tasks_to_market (example_found ''market'' ''priorityScore'' example_nanotasks None)
     1700000000 ''aps-1'' ''sync-1'' [] =
     (Inr None, example_created 1700000000 ''aps-1'' ''sync-1'' @ [PrintExc (AttributeError ''access_token'')])"
proof -
  let ?c = "example_found ''market'' ''priorityScore'' example_nanotasks None"
  have aps: "fetch_aps (tutti ?c) ''aps-1'' [] = (Inr example_aps, [example_aps_lookup ''aps-1''])"
    by (rule example_run_aps)
  have pps: "fetch_pps (tutti ?c) example_aps [example_aps_lookup ''aps-1''] =
     (Inr (example_pps ''market'' ''priorityScore''), [example_aps_lookup ''aps-1'', example_pps_lookup])"
    by (rule example_run_pps)
  have platform: "py_getitem (example_pps ''market'' ''priorityScore'') ''platform'' = Inr (PStr ''market'')"
    by (rule example_platform)
  have nids: "step_create_nanotasks (tutti ?c) example_aps 1700000000 ''sync-1''
       [example_aps_lookup ''aps-1'', example_pps_lookup] =
     (Inr (PList [PStr ''n-1'']),
      [example_aps_lookup ''aps-1'', example_pps_lookup, CreateNanotasks (example_nanotasks_kw 1700000000 ''sync-1''),
       Print [PStr ''Nanotask IDs:'', PList [PStr ''n-1'']]])"
    by (rule example_run_nanotasks)
  have group: "step_create_nanotask_group (tutti ?c) example_aps 1700000000 (PList [PStr ''n-1''])
     [example_aps_lookup ''aps-1'', example_pps_lookup, CreateNanotasks (example_nanotasks_kw 1700000000 ''sync-1''),
      Print [PStr ''Nanotask IDs:'', PList [PStr ''n-1'']]] =
     (Inr (PStr ''ng-1''), example_created 1700000000 ''aps-1'' ''sync-1'')"
    by (rule example_run_group)
  have jp: "job_parameter example_aps ''aps-1'' (PStr ''ng-1'') = Inr (example_job_parameter ''aps-1'')"
    by (rule example_job_parameter_eq)
  have raised: "register_and_check (market ?c) (example_pps ''market'' ''priorityScore'')
     (example_job_parameter ''aps-1'') 1700000000 (PStr ''ng-1'') (example_created 1700000000 ''aps-1'' ''sync-1'') =
     (Inl (AttributeError ''access_token''), example_created 1700000000 ''aps-1'' ''sync-1'')"
    by (rule example_register_and_check_unsigned)
  from try_block_swallows [OF aps pps platform nids group jp] raised
  have "publish_tasks_to_market ?c 1700000000 ''aps-1'' ''sync-1'' [] =
     (Inr None, example_created 1700000000 ''aps-1'' ''sync-1'' @ [PrintExc (AttributeError ''access_token'')])"
    by blast
  with aps pps platform nids group jp raised show ?thesis
    by simp
qed

text \<open>
  An exception of \<open>create_nanotasks\<close>, which is step 5 and precedes the \<open>try\<close>, reaches
  the caller.
\<close>

theorem create_nanotasks_failure_propagates_counterexample:
  "publish_tasks_to_market
     (example_found ''market'' ''priorityScore'' (Inl (Remote ''create_nanotasks failed'')) (Some (PStr ''market-token'')))
     1700000000 ''aps-1'' ''sync-1'' [] =
     (Inl (Remote ''create_nanotasks failed''),
      [example_aps_lookup ''aps-1'', example_pps_lookup, CreateNanotasks (example_nanotasks_kw 1700000000 ''sync-1'')])"
proof -
  let ?c = "example_found ''market'' ''priorityScore'' (Inl (Remote ''create_nanotasks failed'')) (Some (PStr ''market-token''))"
  have aps: "fetch_aps (tutti ?c) ''aps-1'' [] = (Inr example_aps, [example_aps_lookup ''aps-1''])"
    using example_fetch_aps [of "''market''" "''priorityScore''" _ _ "''aps-1''" "[]"] by simp
  have pps: "fetch_pps (tutti ?c) example_aps [example_aps_lookup ''aps-1''] =
     (Inr (example_pps ''market'' ''priorityScore''), [example_aps_lookup ''aps-1'', example_pps_lookup])"
    using example_fetch_pps [of "''market''" "''priorityScore''" _ _ "[example_aps_lookup ''aps-1'']"] by simp
  have nids: "step_create_nanotasks (tutti ?c) example_aps 1700000000 ''sync-1''
       [example_aps_lookup ''aps-1'', example_pps_lookup] =
     (Inl (Remote ''create_nanotasks failed''),
      [example_aps_lookup ''aps-1'', example_pps_lookup, CreateNanotasks (example_nanotasks_kw 1700000000 ''sync-1'')])"
    using example_step_create_nanotasks_fails [of "''market''" "''priorityScore''" _ _ 1700000000 "''sync-1''"
            "[example_aps_lookup ''aps-1'', example_pps_lookup]"] by simp
  show ?thesis
    by (simp add: publish_tasks_to_market_def bnd_def aps pps nids check_platform_def example_platform)
qed

text \<open>
  C2. A run in which every step completes: both lookups find their record, the
  platform is \<open>market\<close>, \<open>create_nanotasks\<close> returns the ids, \<open>create_nanotask_group\<close>
  returns \<open>ngid\<close>, the three parameters are in the bag and coerce, \<open>register_job\<close>
  returns a response whose \<open>success\<close> is true and whose \<open>body\<close> is \<open>jid\<close>. The method
  then returns the pair \<open>(ngid, jid)\<close>, after the two console lines.
\<close>

theorem publish_success:
  assumes aps: "fetch_aps (tutti c) i t = (Inr aps, t1)"
      and pps: "fetch_pps (tutti c) aps t1 = (Inr pps, t2)"
      and platform: "py_getitem pps ''platform'' = Inr (PStr ''market'')"
      and nids: "step_create_nanotasks (tutti c) aps time sync_id t2 = (Inr nids, t3)"
      and project: "py_getitem aps ''project_name'' = Inr project_name"
      and group: "create_nanotask_group (tutti c)
             [(''name'', PStr (py_str (PInt time))), (''nanotask_ids'', nids),
              (''project_name'', project_name), (''template_name'', PStr ''NejiFinderApp'')] = Inr ngid"
      and jp: "job_parameter aps i ngid = Inr jp"
      and jc: "pps_parameter pps ''job_class_id'' = Inr job_class_id"
      and n0: "pps_parameter pps ''num_job_assignments_max'' = Inr n0"
      and n: "int_or_none n0 = Inr n"
      and p0: "pps_parameter pps ''priorityScore'' = Inr p0"
      and p: "int_or_none p0 = Inr p"
      and reg: "register_job (market c) job_class_id jp (PStr (''created at '' @ py_str (PInt time))) n p
                  (t3 @ [CreateNanotaskGroup
                           [(''name'', PStr (py_str (PInt time))), (''nanotask_ids'', nids),
                            (''project_name'', project_name), (''template_name'', PStr ''NejiFinderApp'')],
                         Print [PStr ''Nanotask Group ID:'', ngid]]) = (Inr res, t5)"
      and success: "py_getitem res ''success'' = Inr success"
      and true: "truthy success"
      and body: "py_getitem res ''body'' = Inr jid"
  shows "publish_tasks_to_market c time i sync_id t =
           (Inr (Some (ngid, jid)),
            t5 @ [Print [PStr ''Job Class ID:'', job_class_id], Print [PStr ''Job ID:'', jid]])"
proof -
  note g = step_create_nanotask_group_run [OF project group, of t3]
  have "register_and_check (market c) pps jp time ngid
          (t3 @ [CreateNanotaskGroup
                   [(''name'', PStr (py_str (PInt time))), (''nanotask_ids'', nids),
                    (''project_name'', project_name), (''template_name'', PStr ''NejiFinderApp'')],
                 Print [PStr ''Nanotask Group ID:'', ngid]]) =
        (Inr (Some (ngid, jid)),
         t5 @ [Print [PStr ''Job Class ID:'', job_class_id], Print [PStr ''Job ID:'', jid]])"
    using reg by (simp add: register_and_check_def jc n0 n p0 p bnd_def success true body print_def)
  then show ?thesis
    unfolding publish_after_creation [OF aps pps platform nids g jp]
    by (simp add: try_except_def)
qed

theorem publish_success_witness:
  "fetch_aps (tutti (example_found ''market'' ''priorityScore'' example_nanotasks (Some (PStr ''market-token''))))
     ''aps-1'' [] = (Inr example_aps, [example_aps_lookup ''aps-1'']) \<and>
   fetch_pps (tutti (example_found ''market'' ''priorityScore'' example_nanotasks (Some (PStr ''market-token''))))
     example_aps [example_aps_lookup ''aps-1''] =
     (Inr (example_pps ''market'' ''priorityScore''), [example_aps_lookup ''aps-1'', example_pps_lookup]) \<and>
   py_getitem (example_pps ''market'' ''priorityScore'') ''platform'' = Inr (PStr ''market'') \<and>
   step_create_nanotasks (tutti (example_found ''market'' ''priorityScore'' example_nanotasks (Some (PStr ''market-token''))))
     example_aps 1700000000 ''sync-1'' [example_aps_lookup ''aps-1'', example_pps_lookup] =
     (Inr (PList [PStr ''n-1'']),
      [example_aps_lookup ''aps-1'', example_pps_lookup, CreateNanotasks (example_nanotasks_kw 1700000000 ''sync-1''),
       Print [PStr ''Nanotask IDs:'', PList [PStr ''n-1'']]]) \<and>
   py_getitem example_aps ''project_name'' = Inr (PStr ''neji'') \<and>
   create_nanotask_group (tutti (example_found ''market'' ''priorityScore'' example_nanotasks (Some (PStr ''market-token''))))
     [(''name'', PStr (py_str (PInt 1700000000))), (''nanotask_ids'', PList [PStr ''n-1'']),
      (''project_name'', PStr ''neji''), (''template_name'', PStr ''NejiFinderApp'')] = Inr (PStr ''ng-1'') \<and>
   job_parameter example_aps ''aps-1'' (PStr ''ng-1'') = Inr (example_job_parameter ''aps-1'') \<and>
   pps_parameter (example_pps ''market'' ''priorityScore'') ''job_class_id'' = Inr (PStr ''jc1'') \<and>
   pps_parameter (example_pps ''market'' ''priorityScore'') ''num_job_assignments_max'' = Inr (PStr []) \<and>
   int_or_none (PStr []) = Inr PNone \<and>
   pps_parameter (example_pps ''market'' ''priorityScore'') ''priorityScore'' = Inr (PStr ''5'') \<and>
   int_or_none (PStr ''5'') = Inr (PInt 5) \<and>
   register_job (market (example_found ''market'' ''priorityScore'' example_nanotasks (Some (PStr ''market-token''))))
     (PStr ''jc1'') (example_job_parameter ''aps-1'') (PStr (''created at '' @ py_str (PInt 1700000000))) PNone (PInt 5)
     (example_created 1700000000 ''aps-1'' ''sync-1'') =
     (Inr (PDict [(''success'', PBool True), (''body'', PStr ''job-1'')]),
      example_created 1700000000 ''aps-1'' ''sync-1'' @
        [DuctCall Market (PInt 11) (example_register_request 1700000000 ''aps-1'')]) \<and>
   py_getitem (PDict [(''success'', PBool True), (''body'', PStr ''job-1'')]) ''success'' = Inr (PBool True) \<and>
   truthy (PBool True) \<and>
   py_getitem (PDict [(''success'', PBool True), (''body'', PStr ''job-1'')]) ''body'' = Inr (PStr ''job-1'') \<and>
   publish_tasks_to_market (example_found ''market'' ''priorityScore'' example_nanotasks (Some (PStr ''market-token'')))
     1700000000 ''aps-1'' ''sync-1'' [] =
     (Inr (Some (PStr ''ng-1'', PStr ''job-1'')),
      example_created 1700000000 ''aps-1'' ''sync-1'' @
        [DuctCall Market (PInt 11) (example_register_request 1700000000 ''aps-1''),
         Print [PStr ''Job Class ID:'', PStr ''jc1''], Print [PStr ''Job ID:'', PStr ''job-1'']])"
proof -
  let ?c = "example_found ''market'' ''priorityScore'' example_nanotasks (Some (PStr ''market-token''))"
  let ?kw = "[(''name'', PStr (py_str (PInt 1700000000))), (''nanotask_ids'', PList [PStr ''n-1'']),
      (''project_name'', PStr ''neji''), (''template_name'', PStr ''NejiFinderApp'')]"
  let ?t3 = "[example_aps_lookup ''aps-1'', example_pps_lookup, CreateNanotasks (example_nanotasks_kw 1700000000 ''sync-1''),
       Print [PStr ''Nanotask IDs:'', PList [PStr ''n-1'']]]"
  let ?res = "PDict [(''success'', PBool True), (''body'', PStr ''job-1'')]"
  have aps: "fetch_aps (tutti ?c) ''aps-1'' [] = (Inr example_aps, [example_aps_lookup ''aps-1''])"
    by (rule example_run_aps)
  have pps: "fetch_pps (tutti ?c) example_aps [example_aps_lookup ''aps-1''] =
     (Inr (example_pps ''market'' ''priorityScore''), [example_aps_lookup ''aps-1'', example_pps_lookup])"
    by (rule example_run_pps)
  have platform: "py_getitem (example_pps ''market'' ''priorityScore'') ''platform'' = Inr (PStr ''market'')"
    by (rule example_platform)
  have nids: "step_create_nanotasks (tutti ?c) example_aps 1700000000 ''sync-1''
       [example_aps_lookup ''aps-1'', example_pps_lookup] = (Inr (PList [PStr ''n-1'']), ?t3)"
    by (rule example_run_nanotasks)
  have project: "py_getitem example_aps ''project_name'' = Inr (PStr ''neji'')"
    by (simp add: example_aps_def)
  have group: "create_nanotask_group (tutti ?c) ?kw = Inr (PStr ''ng-1'')"
    by (simp add: example_found_def example_client_def example_tutti_def)
  have jp: "job_parameter example_aps ''aps-1'' (PStr ''ng-1'') = Inr (example_job_parameter ''aps-1'')"
    by (rule example_job_parameter_eq)
  have jc: "pps_parameter (example_pps ''market'' ''priorityScore'') ''job_class_id'' = Inr (PStr ''jc1'')"
    by (simp add: pps_parameter_def example_pps_def)
  have n0: "pps_parameter (example_pps ''market'' ''priorityScore'') ''num_job_assignments_max'' = Inr (PStr [])"
    by (simp add: pps_parameter_def example_pps_def)
  have n: "int_or_none (PStr []) = Inr PNone"
    by (simp add: int_or_none_def)
  have p0: "pps_parameter (example_pps ''market'' ''priorityScore'') ''priorityScore'' = Inr (PStr ''5'')"
    by (simp add: pps_parameter_def example_pps_def)
  have p: "int_or_none (PStr ''5'') = Inr (PInt 5)"
    by (simp add: int_or_none_def py_int_five del: py_int.simps)
  have created: "?t3 @ [CreateNanotaskGroup ?kw, Print [PStr ''Nanotask Group ID:'', PStr ''ng-1'']] =
      example_created 1700000000 ''aps-1'' ''sync-1''"
    by (simp add: example_created_def example_group_kw_def)
  have reg': "register_job (market ?c) (PStr ''jc1'') (example_job_parameter ''aps-1'')
       (PStr (''created at '' @ py_str (PInt 1700000000))) PNone (PInt 5)
       (example_created 1700000000 ''aps-1'' ''sync-1'') =
     (Inr ?res, example_created 1700000000 ''aps-1'' ''sync-1'' @
        [DuctCall Market (PInt 11) (example_register_request 1700000000 ''aps-1'')])"
    by (rule example_register_job)
  have reg: "register_job (market ?c) (PStr ''jc1'') (example_job_parameter ''aps-1'')
       (PStr (''created at '' @ py_str (PInt 1700000000))) PNone (PInt 5)
       (?t3 @ [CreateNanotaskGroup ?kw, Print [PStr ''Nanotask Group ID:'', PStr ''ng-1'']]) =
     (Inr ?res, example_created 1700000000 ''aps-1'' ''sync-1'' @
        [DuctCall Market (PInt 11) (example_register_request 1700000000 ''aps-1'')])"
    unfolding created by (rule reg')
  have success: "py_getitem ?res ''success'' = Inr (PBool True)"
    by simp
  have true: "truthy (PBool True)"
    by simp
  have body: "py_getitem ?res ''body'' = Inr (PStr ''job-1'')"
    by simp
  from publish_success [OF aps pps platform nids project group jp jc n0 n p0 p reg success true body]
    aps pps platform nids project group jp jc n0 n p0 p reg' success true body
  show ?thesis by simp
qed

text \<open>
  C4, as the code has it. With the platform \<open>market\<close> and the parameter bag
  \<open>job_class_id = "jc1"\<close>, \<open>num_job_assignments_max = ""\<close>, \<open>priorityScore = "5"\<close> (the key
  line 255 reads), once the creations are through and the controller is signed in, the
  job request goes out with \<open>num_job_assignments_max\<close> \<open>None\<close> and \<open>priority_score\<close> the
  integer 5.
\<close>

theorem register_coerces_parameters:
  assumes aps: "fetch_aps (tutti c) i t = (Inr aps, t1)"
      and pps: "fetch_pps (tutti c) aps t1 = (Inr pps, t2)"
      and platform: "py_getitem pps ''platform'' = Inr (PStr ''market'')"
      and bag: "py_getitem pps ''parameters'' =
                  Inr (PDict [(''job_class_id'', PStr ''jc1''),
                              (''num_job_assignments_max'', PStr []),
                              (''priorityScore'', PStr ''5'')])"
      and nids: "step_create_nanotasks (tutti c) aps time sync_id t2 = (Inr nids, t3)"
      and group: "step_create_nanotask_group (tutti c) aps time nids t3 = (Inr ngid, t4)"
      and jp: "job_parameter aps i ngid = Inr jp"
      and ev: "py_getitem (EVENT (market_duct (market c))) ''REGISTER_JOB'' = Inr ev"
      and tok: "access_token (market c) = Some tok"
  shows "\<exists>r rest. publish_tasks_to_market c time i sync_id t =
           (r, t4 @ DuctCall Market ev
                      (PDict [(''access_token'', tok),
                              (''job_class_id'', PStr ''jc1''),
                              (''job_parameter'', jp),
                              (''description'', PStr (''created at '' @ py_str (PInt time))),
                              (''num_job_assignments_max'', PNone),
                              (''priority_score'', PInt 5)]) # rest)"
proof -
  have five: "py_int (PStr ''5'') = Inr 5"
    by (simp add: int_of_text_def strip_def is_space_def)
  show ?thesis
    unfolding publish_after_creation [OF aps pps platform nids group jp]
    by (simp add: try_except_def register_and_check_def pps_parameter_def bag int_or_none_def five
          register_job_def ev get_access_token_def tok duct_call_def bnd_def print_def
          del: py_int.simps split: sum.splits prod.splits)
qed

theorem register_coerces_parameters_witness:
  "fetch_aps (tutti (example_found ''market'' ''priorityScore'' example_nanotasks (Some (PStr ''market-token''))))
     ''aps-1'' [] = (Inr example_aps, [example_aps_lookup ''aps-1'']) \<and>
   fetch_pps (tutti (example_found ''market'' ''priorityScore'' example_nanotasks (Some (PStr ''market-token''))))
     example_aps [example_aps_lookup ''aps-1''] =
     (Inr (example_pps ''market'' ''priorityScore''), [example_aps_lookup ''aps-1'', example_pps_lookup]) \<and>
   py_getitem (example_pps ''market'' ''priorityScore'') ''platform'' = Inr (PStr ''market'') \<and>
   py_getitem (example_pps ''market'' ''priorityScore'') ''parameters'' =
     Inr (PDict [(''job_class_id'', PStr ''jc1''), (''num_job_assignments_max'', PStr []),
                 (''priorityScore'', PStr ''5'')]) \<and>
   step_create_nanotasks (tutti (example_found ''market'' ''priorityScore'' example_nanotasks (Some (PStr ''market-token''))))
     example_aps 1700000000 ''sync-1'' [example_aps_lookup ''aps-1'', example_pps_lookup] =
     (Inr (PList [PStr ''n-1'']),
      [example_aps_lookup ''aps-1'', example_pps_lookup, CreateNanotasks (example_nanotasks_kw 1700000000 ''sync-1''),
       Print [PStr ''Nanotask IDs:'', PList [PStr ''n-1'']]]) \<and>
   step_create_nanotask_group (tutti (example_found ''market'' ''priorityScore'' example_nanotasks (Some (PStr ''market-token''))))
     example_aps 1700000000 (PList [PStr ''n-1''])
     [example_aps_lookup ''aps-1'', example_pps_lookup, CreateNanotasks (example_nanotasks_kw 1700000000 ''sync-1''),
      Print [PStr ''Nanotask IDs:'', PList [PStr ''n-1'']]] =
     (Inr (PStr ''ng-1''), example_created 1700000000 ''aps-1'' ''sync-1'') \<and>
   job_parameter example_aps ''aps-1'' (PStr ''ng-1'') = Inr (example_job_parameter ''aps-1'') \<and>
   py_getitem (EVENT (market_duct (market (example_found ''market'' ''priorityScore'' example_nanotasks
     (Some (PStr ''market-token'')))))) ''REGISTER_JOB'' = Inr (PInt 11) \<and>
   access_token (market (example_found ''market'' ''priorityScore'' example_nanotasks (Some (PStr ''market-token'')))) =
     Some (PStr ''market-token'') \<and>
   sent_payloads Market (snd (publish_tasks_to_market
     (example_found ''market'' ''priorityScore'' example_nanotasks (Some (PStr ''market-token'')))
     1700000000 ''aps-1'' ''sync-1'' [])) =
     [PDict [(''access_token'', PStr ''market-token''),
             (''job_class_id'', PStr ''jc1''),
             (''job_parameter'', example_job_parameter ''aps-1''),
             (''description'', PStr ''created at 1700000000''),
             (''num_job_assignments_max'', PNone),
             (''priority_score'', PInt 5)]]"
proof -
  let ?c = "example_found ''market'' ''priorityScore'' example_nanotasks (Some (PStr ''market-token''))"
  let ?t3 = "[example_aps_lookup ''aps-1'', example_pps_lookup, CreateNanotasks (example_nanotasks_kw 1700000000 ''sync-1''),
       Print [PStr ''Nanotask IDs:'', PList [PStr ''n-1'']]]"
  have aps: "fetch_aps (tutti ?c) ''aps-1'' [] = (Inr example_aps, [example_aps_lookup ''aps-1''])"
    by (rule example_run_aps)
  have pps: "fetch_pps (tutti ?c) example_aps [example_aps_lookup ''aps-1''] =
     (Inr (example_pps ''market'' ''priorityScore''), [example_aps_lookup ''aps-1'', example_pps_lookup])"
    by (rule example_run_pps)
  have platform: "py_getitem (example_pps ''market'' ''priorityScore'') ''platform'' = Inr (PStr ''market'')"
    by (rule example_platform)
  have bag: "py_getitem (example_pps ''market'' ''priorityScore'') ''parameters'' =
     Inr (PDict [(''job_class_id'', PStr ''jc1''), (''num_job_assignments_max'', PStr []),
                 (''priorityScore'', PStr ''5'')])"
    by (simp add: example_pps_def)
  have nids: "step_create_nanotasks (tutti ?c) example_aps 1700000000 ''sync-1''
       [example_aps_lookup ''aps-1'', example_pps_lookup] = (Inr (PList [PStr ''n-1'']), ?t3)"
    by (rule example_run_nanotasks)
  have group: "step_create_nanotask_group (tutti ?c) example_aps 1700000000 (PList [PStr ''n-1'']) ?t3 =
     (Inr (PStr ''ng-1''), example_created 1700000000 ''aps-1'' ''sync-1'')"
    by (rule example_run_group)
  have jp: "job_parameter example_aps ''aps-1'' (PStr ''ng-1'') = Inr (example_job_parameter ''aps-1'')"
    by (rule example_job_parameter_eq)
  have ev: "py_getitem (EVENT (market_duct (market ?c))) ''REGISTER_JOB'' = Inr (PInt 11)"
    by (simp add: example_found_def example_client_def example_market_duct_def)
  have tok: "access_token (market ?c) = Some (PStr ''market-token'')"
    by (simp add: example_found_def example_client_def)
  have run: "publish_tasks_to_market ?c 1700000000 ''aps-1'' ''sync-1'' [] =
     (Inr (Some (PStr ''ng-1'', PStr ''job-1'')),
      example_created 1700000000 ''aps-1'' ''sync-1'' @
        [DuctCall Market (PInt 11) (example_register_request 1700000000 ''aps-1''),
         Print [PStr ''Job Class ID:'', PStr ''jc1''], Print [PStr ''Job ID:'', PStr ''job-1'']])"
    by (simp add: example_publish_until_try try_except_def example_register_and_check)
  from register_coerces_parameters [OF aps pps platform bag nids group jp ev tok]
    aps pps platform bag nids group jp ev tok run
  show ?thesis
    by (simp add: example_created_def example_aps_lookup_def example_pps_lookup_def
          example_register_request_def py_str_example_time)
qed

text \<open>
  The same bag with the key spelled \<open>priority_score\<close>: line 255 raises \<open>KeyError\<close>,
  the \<open>except\<close> prints it, the method returns \<open>None\<close>, and no request reached the
  marketplace.
\<close>

theorem snake_case_score_key_counterexample:
  "publish_tasks_to_market
     (example_found ''market'' ''priority_score'' example_nanotasks (Some (PStr ''market-token'')))
     1700000000 ''aps-1'' ''sync-1'' [] =
     (Inr None, example_created 1700000000 ''aps-1'' ''sync-1'' @ [PrintExc (KeyError ''priorityScore'')]) \<and>
   sent_payloads Market (example_created 1700000000 ''aps-1'' ''sync-1'' @ [PrintExc (KeyError ''priorityScore'')]) = []"
  by (simp add: example_publish_until_try try_except_def example_register_and_check_snake
        example_created_def example_aps_lookup_def example_pps_lookup_def)

section \<open>Watching\<close>

text \<open>
  C7, as the code has it. After registering the handler the method sends the
  start-watching request (the id, the cursor, \<open>+\<close> when none is given, and \<open>exclusive\<close>
  true) and ends with the outcome of that \<open>send\<close>: it returns \<open>None\<close> as soon as \<open>send\<close>
  returns and raises what \<open>send\<close> raises. The log holds the registration and the
  request, nothing after them: the method waits for nothing else.
\<close>

theorem watch_returns_with_send:
  assumes on: "resource_on (tutti c) watch_topic handler = Inr r"
  shows "watch_responses_for_tasks c i handler last_watch_id t =
           (map_sum id (\<lambda>v. ()) (resource_send (tutti c) watch_topic (watch_request i last_watch_id)),
            t @ [On watch_topic handler, Send watch_topic (watch_request i last_watch_id)]) \<and>
         watch_request i None =
           [(''automation_parameter_set_id'', PStr i), (''last_watch_id'', PStr ''+''), (''exclusive'', PBool True)] \<and>
         watch_request i (Some w) =
           [(''automation_parameter_set_id'', PStr i), (''last_watch_id'', w), (''exclusive'', PBool True)]"
  by (cases "resource_send (tutti c) watch_topic (watch_request i last_watch_id)")
     (simp_all add: watch_responses_for_tasks_def on watch_request_def)

theorem watch_returns_with_send_witness:
  "resource_on (tutti (example_found ''market'' ''priorityScore'' example_nanotasks None)) watch_topic
     (Callable ''on_response'') = Inr PNone \<and>
   resource_send (tutti (example_found ''market'' ''priorityScore'' example_nanotasks None)) watch_topic
     (watch_request ''aps-1'' (Some (PStr ''0''))) = Inr PNone \<and>
   watch_responses_for_tasks (example_found ''market'' ''priorityScore'' example_nanotasks None) ''aps-1''
     (Callable ''on_response'') (Some (PStr ''0'')) [] =
     (Inr (),
      [On watch_topic (Callable ''on_response''),
       Send watch_topic [(''automation_parameter_set_id'', PStr ''aps-1''), (''last_watch_id'', PStr ''0''),
                         (''exclusive'', PBool True)]])"
proof -
  let ?c = "example_found ''market'' ''priorityScore'' example_nanotasks None"
  have on: "resource_on (tutti ?c) watch_topic (Callable ''on_response'') = Inr PNone"
    by (simp add: example_found_def example_client_def example_tutti_def)
  have send: "resource_send (tutti ?c) watch_topic (watch_request ''aps-1'' (Some (PStr ''0''))) = Inr PNone"
    by (simp add: example_found_def example_client_def example_tutti_def)
  from watch_returns_with_send [OF on, of "''aps-1''" "Some (PStr ''0'')" "[]" "PStr ''0''"] on send
  show ?thesis by simp
qed

text \<open>
  Against a task-management client whose \<open>send\<close> returns, the method has returned
  with nothing but the registration and the request behind it.
\<close>

theorem watch_returns_without_cancellation_counterexample:
  "watch_responses_for_tasks (example_found ''market'' ''priorityScore'' example_nanotasks None) ''aps-1''
     (Callable ''on_response'') None [] =
     (Inr (),
      [On watch_topic (Callable ''on_response''),
       Send watch_topic [(''automation_parameter_set_id'', PStr ''aps-1''), (''last_watch_id'', PStr ''+''),
                         (''exclusive'', PBool True)]])"
  by (simp add: watch_responses_for_tasks_def watch_request_def example_found_def example_client_def
        example_tutti_def)

section \<open>Signing in\<close>

text \<open>
  C8. In every execution of \<open>sign_in\<close> the log grows by nothing, by the
  task-management sign-in alone, or by the task-management sign-in followed by the
  marketplace's \<open>SIGN_IN\<close> request, and in the last case the task-management sign-in
  had returned; when the task-management sign-in raises, \<open>sign_in\<close> raises the same
  exception with only that call in the log.
\<close>

theorem sign_in_works_before_market:
  "(\<forall>user_name password_hash token kw e.
      bind_works_params works_params = Inr (user_name, password_hash, token, kw) \<and>
      resource_sign_in (tutti c) user_name password_hash token kw = Inl e \<longrightarrow>
      sign_in c works_params market_params t = (Inl e, t @ [SignInWorks user_name password_hash token kw])) \<and>
   (snd (sign_in c works_params market_params t) = t \<or>
    (\<exists>user_name password_hash token kw.
       snd (sign_in c works_params market_params t) = t @ [SignInWorks user_name password_hash token kw]) \<or>
    (\<exists>user_name password_hash token kw r ev request.
       snd (sign_in c works_params market_params t) =
         t @ [SignInWorks user_name password_hash token kw, DuctCall Market ev request] \<and>
       resource_sign_in (tutti c) user_name password_hash token kw = Inr r))"
proof -
  have failing: "\<forall>user_name password_hash token kw e.
      bind_works_params works_params = Inr (user_name, password_hash, token, kw) \<and>
      resource_sign_in (tutti c) user_name password_hash token kw = Inl e \<longrightarrow>
      sign_in c works_params market_params t = (Inl e, t @ [SignInWorks user_name password_hash token kw])"
    by (simp add: sign_in_def sign_in_works_def bnd_def)
  have market_log: "snd (sign_in_market c user_id password lifetime t') = t' \<or>
      (\<exists>ev request. snd (sign_in_market c user_id password lifetime t') = t' @ [DuctCall Market ev request])"
    for user_id password lifetime t'
    by (simp add: sign_in_market_def controller_sign_in_def bnd_def duct_call_def
          split: sum.splits prod.splits)
  have order: "snd (sign_in c works_params market_params t) = t \<or>
    (\<exists>user_name password_hash token kw.
       snd (sign_in c works_params market_params t) = t @ [SignInWorks user_name password_hash token kw]) \<or>
    (\<exists>user_name password_hash token kw r ev request.
       snd (sign_in c works_params market_params t) =
         t @ [SignInWorks user_name password_hash token kw, DuctCall Market ev request] \<and>
       resource_sign_in (tutti c) user_name password_hash token kw = Inr r)"
  proof (cases "bind_works_params works_params")
    case (Inl e)
    then show ?thesis by (simp add: sign_in_def bnd_def)
  next
    case (Inr b)
    obtain user_name password_hash token kw where b: "b = (user_name, password_hash, token, kw)"
      by (cases b) auto
    show ?thesis
    proof (cases "resource_sign_in (tutti c) user_name password_hash token kw")
      case (Inl e)
      then show ?thesis using Inr b by (simp add: sign_in_def sign_in_works_def bnd_def)
    next
      case r: (Inr r)
      show ?thesis
      proof (cases "bind_market_params market_params")
        case (Inl e)
        then show ?thesis using Inr b r by (simp add: sign_in_def sign_in_works_def bnd_def)
      next
        case m: (Inr m)
        obtain user_id password lifetime where m': "m = (user_id, password, lifetime)"
          by (cases m) auto
        have "sign_in c works_params market_params t =
                sign_in_market c user_id password lifetime (t @ [SignInWorks user_name password_hash token kw])"
          using Inr b r m m' by (simp add: sign_in_def sign_in_works_def bnd_def)
        then show ?thesis
          using market_log [of user_id password lifetime "t @ [SignInWorks user_name password_hash token kw]"] r
          by auto
      qed
    qed
  qed
  from failing order show ?thesis by blast
qed

theorem sign_in_works_before_market_witness:
  "bind_works_params [(''user_name'', PStr ''admin''), (''password'', PStr ''admin'')] =
     Inr (PStr ''admin'', PNone, PNone, [(''password'', PStr ''admin'')]) \<and>
   resource_sign_in (tutti example_refusing) (PStr ''admin'') PNone PNone [(''password'', PStr ''admin'')] =
     Inl (Remote ''sign-in refused'') \<and>
   sign_in example_refusing [(''user_name'', PStr ''admin''), (''password'', PStr ''admin'')]
     [(''user_id'', PStr ''requester1''), (''password'', PStr ''requester1'')] [] =
     (Inl (Remote ''sign-in refused''), [SignInWorks (PStr ''admin'') PNone PNone [(''password'', PStr ''admin'')]])"
proof -
  have b: "bind_works_params [(''user_name'', PStr ''admin''), (''password'', PStr ''admin'')] =
     Inr (PStr ''admin'', PNone, PNone, [(''password'', PStr ''admin'')])"
    by (simp add: bind_works_params_def kw_get_def)
  have r: "resource_sign_in (tutti example_refusing) (PStr ''admin'') PNone PNone [(''password'', PStr ''admin'')] =
     Inl (Remote ''sign-in refused'')"
    by (simp add: example_refusing_def)
  from sign_in_works_before_market [of "[(''user_name'', PStr ''admin''), (''password'', PStr ''admin'')]"
      example_refusing "[(''user_id'', PStr ''requester1''), (''password'', PStr ''requester1'')]" "[]"] b r
  show ?thesis by simp
qed

lemma example_sign_in_log:
  "snd (sign_in (example_found ''market'' ''priorityScore'' example_nanotasks None)
     [(''user_name'', PStr ''admin''), (''password'', PStr ''admin'')]
     [(''user_id'', PStr ''requester1''), (''password'', PStr ''secret'')] []) =
     [SignInWorks (PStr ''admin'') PNone PNone [(''password'', PStr ''admin'')],
      DuctCall Market (PInt 10)
        (sign_in_request (PStr ''requester1'') (map of_char ''secret'') (PInt 604800000))]"
  by (simp add: sign_in_def sign_in_works_def sign_in_market_def controller_sign_in_def
        bind_works_params_def bind_market_params_def kw_get_def encode_ascii_def duct_call_def
        example_found_def example_client_def example_tutti_def example_market_duct_def bnd_def)

end
